theory Spec2Isabelle
  imports Main
begin

section \<open>Strings and the sanitizer of the store API\<close>

text \<open>
  A Go string is a sequence of bytes, and so is a HOL \<^typ>\<open>string\<close>.
  \<open>strings.ReplaceAll s old new\<close> replaces the non-overlapping occurrences of \<open>old\<close> in
  \<open>s\<close>, leftmost first, by \<open>new\<close>. The function scans \<open>s\<close> from the left: where \<open>old\<close>
  starts at the current position it emits \<open>new\<close> and skips \<open>old\<close>, elsewhere it copies one
  byte. The empty pattern, which Go matches at every rune boundary, has no equation: the
  store API only passes patterns of one character.
\<close>

fun ReplaceAll :: "string \<Rightarrow> string \<Rightarrow> string \<Rightarrow> string" where
  "ReplaceAll [] (oc # ocs) new = []"
| "ReplaceAll (c # cs) (oc # ocs) new =
     (if take (Suc (length ocs)) (c # cs) = oc # ocs
      then new @ ReplaceAll (drop (length ocs) cs) (oc # ocs) new
      else c # ReplaceAll cs (oc # ocs) new)"

text \<open>\<open>SanitizeInput\<close> (main.go, lines 87 to 93): four replacements in a row.\<close>

definition SanitizeInput :: "string \<Rightarrow> string" where
  "SanitizeInput input =
     (let safe = ReplaceAll input ''<'' '''';
          safe = ReplaceAll safe ''>'' '''';
          safe = ReplaceAll safe [CHR 0x27] '''';
          safe = ReplaceAll safe '';'' ''''
      in safe)"

text \<open>The four characters of the denylist.\<close>

definition denylist :: "char set" where
  "denylist = {CHR ''<'', CHR ''>'', CHR 0x27, CHR '';''}"

section \<open>Requests, JSON values and the decoder\<close>

text \<open>
  A JSON value as \<open>encoding/json\<close> reads it. A number is kept as the decoder tells it
  apart: \<open>JInt n\<close> is a literal of digits with an optional sign (its value is \<open>n\<close>),
  \<open>JFloat l\<close> a literal \<open>l\<close> with a fraction or an exponent.
\<close>

datatype json =
    JNull
  | JBool bool
  | JInt int
  | JFloat string
  | JString string
  | JArray "json list"
  | JObject "(string \<times> json) list"

datatype error = SyntaxError | UnmarshalTypeError | DBError | RedisError

text \<open>\<open>OrderRequest\<close> (main.go, lines 24 to 27); Go's \<open>int\<close> is the 64-bit integer.\<close>

record OrderRequest =
  ProductID :: string
  Quantity :: int

definition zero_OrderRequest :: OrderRequest where
  "zero_OrderRequest = \<lparr>ProductID = [], Quantity = 0\<rparr>"

definition int_fits :: "int \<Rightarrow> bool" where
  "int_fits n = (- (2 ^ 63) \<le> n \<and> n < 2 ^ 63)"

text \<open>
  The decoder finds the field of a key by its JSON name, letters compared without case.
  Neither name holds a \<open>k\<close> or an \<open>s\<close>, the two letters that also fold with a character
  outside ASCII, so the comparison is the one of ASCII.
\<close>

definition ascii_upper :: "char \<Rightarrow> char" where
  "ascii_upper c =
     (let n = (of_char c :: nat) in if 97 \<le> n \<and> n \<le> 122 then char_of (n - 32) else c)"

definition fold_eq :: "string \<Rightarrow> string \<Rightarrow> bool" where
  "fold_eq key name = (map ascii_upper key = map ascii_upper name)"

text \<open>
  One member of a JSON object stored into the request. A string goes into \<open>ProductID\<close>,
  an integer literal of the \<open>int\<close> range into \<open>Quantity\<close>, \<open>null\<close> leaves the field as
  it is, and any other value is a type error: the decoder keeps the first such error and
  goes on. A key that names no field is skipped.
\<close>

fun store_member :: "string \<times> json \<Rightarrow> OrderRequest \<times> error option \<Rightarrow> OrderRequest \<times> error option" where
  "store_member (key, v) (req, err) =
     (let type_error = (case err of None \<Rightarrow> Some UnmarshalTypeError | Some e \<Rightarrow> Some e) in
      if fold_eq key ''product_id'' then
        (case v of
           JString s \<Rightarrow> (req\<lparr>ProductID := s\<rparr>, err)
         | JNull \<Rightarrow> (req, err)
         | _ \<Rightarrow> (req, type_error))
      else if fold_eq key ''quantity'' then
        (case v of
           JInt n \<Rightarrow> if int_fits n then (req\<lparr>Quantity := n\<rparr>, err) else (req, type_error)
         | JNull \<Rightarrow> (req, err)
         | _ \<Rightarrow> (req, type_error))
      else (req, err))"

text \<open>
  The scanner of \<open>encoding/json\<close> counts the arrays and objects that are open and gives
  up beyond \<open>maxNestingDepth\<close> of them, wherever in the value they are.
\<close>

fun nesting :: "json \<Rightarrow> nat" where
  "nesting (JArray elements) = Suc (fold max (map nesting elements) 0)"
| "nesting (JObject members) = Suc (fold max (map (\<lambda>m. nesting (snd m)) members) 0)"
| "nesting v = 0"

definition maxNestingDepth :: nat where
  "maxNestingDepth = 10000"

text \<open>
  \<open>json.NewDecoder(r.Body).Decode(&req)\<close>. The body is \<open>None\<close> when it does not start
  with a JSON value (an empty body too), and the first JSON value of the body otherwise.
  The decoder scans the whole value first, so a value nested too deep is a syntax error
  whatever it holds. Then an object is stored member by member, \<open>null\<close> changes
  nothing, and any other value cannot be stored into a struct.
\<close>

definition Decode :: "json option \<Rightarrow> OrderRequest \<Rightarrow> OrderRequest \<times> error option" where
  "Decode body req =
     (case body of
        None \<Rightarrow> (req, Some SyntaxError)
      | Some v \<Rightarrow>
          if maxNestingDepth < nesting v then (req, Some SyntaxError)
          else
            (case v of
               JObject members \<Rightarrow> foldl (\<lambda>acc m. store_member m acc) (req, None) members
             | JNull \<Rightarrow> (req, None)
             | _ \<Rightarrow> (req, Some UnmarshalTypeError)))"

record Request =
  Method :: string
  Body :: "json option"

datatype payload = Text string | Json json

record Response =
  StatusCode :: nat
  ContentType :: string
  Payload :: payload

text \<open>\<open>http.Error\<close>: a plain-text answer, the message and a newline.\<close>

definition http_Error :: "string \<Rightarrow> nat \<Rightarrow> Response" where
  "http_Error msg code =
     \<lparr>StatusCode = code, ContentType = ''text/plain; charset=utf-8'', Payload = Text (msg @ [CHR 0x0A])\<rparr>"

section \<open>The store, the channel and the handler\<close>

text \<open>
  The table \<open>orders\<close> (main.go, lines 60 to 67) and what the handler does to the world:
  the rows, the sequence behind the \<open>SERIAL\<close> column, the messages the channel took, and
  the calls the handler made, in their order.
\<close>

record orders_row =
  row_id :: int
  row_product_id :: string
  row_quantity :: int
  row_status :: string
  row_created_at :: nat

datatype log_line = LogDBInsertError | LogRedisPublishError | LogProcessed int string

datatype event =
    EvInsert string int "int option"
  | EvPublish string json bool
  | EvLog log_line

record world =
  orders :: "orders_row list"
  orders_id_seq :: int
  channel :: "(string \<times> json) list"
  trace :: "event list"

text \<open>
  What the handler cannot decide: whether the store or the channel fails this call (a lost
  connection, say), and the store's clock.
\<close>

record env =
  insert_error :: bool
  publish_error :: bool
  current_timestamp :: nat

text \<open>
  What the columns of the table take. \<open>VARCHAR(n)\<close> counts characters: in the UTF-8
  text that the decoder hands over, a character is a byte that is no continuation byte,
  with the continuation bytes after it. A value of more than \<open>n\<close> characters is
  refused, unless all that lies beyond the \<open>n\<close>-th character is blanks: then the store
  cuts the value to its first \<open>n\<close> characters and stores that. A text value holds no
  zero byte, and \<open>INT\<close> is the 32-bit integer.
\<close>

definition is_continuation :: "char \<Rightarrow> bool" where
  "is_continuation c = (128 \<le> (of_char c :: nat) \<and> (of_char c :: nat) < 192)"

fun take_chars :: "nat \<Rightarrow> string \<Rightarrow> string" where
  "take_chars n [] = []"
| "take_chars n (c # cs) =
     (if is_continuation c then c # take_chars n cs
      else if n = 0 then []
      else c # take_chars (n - 1) cs)"

definition char_length :: "string \<Rightarrow> nat" where
  "char_length s = length (filter (\<lambda>c. \<not> is_continuation c) s)"

definition varchar :: "nat \<Rightarrow> string \<Rightarrow> string option" where
  "varchar n s =
     (let kept = take_chars n s in
      if list_all (\<lambda>c. c = CHR '' '') (drop (length kept) s) then Some kept else None)"

definition int4_fits :: "int \<Rightarrow> bool" where
  "int4_fits n = (- (2 ^ 31) \<le> n \<and> n < 2 ^ 31)"

text \<open>
  \<open>INSERT INTO orders (product_id, quantity, status) VALUES ($1, $2, 'pending') RETURNING id\<close>.
  The store refuses a value that a column does not take. The identifier is the next value
  of the sequence; the primary key refuses an identifier that a row already has. A
  successful insert adds one row, the product identifier as \<open>VARCHAR(50)\<close> holds it, and
  returns the identifier of the row.
\<close>

definition insert_order :: "env \<Rightarrow> string \<Rightarrow> int \<Rightarrow> world \<Rightarrow> (error + int) \<times> world" where
  "insert_order e product_id quantity w =
     (let refused = w\<lparr>trace := trace w @ [EvInsert product_id quantity None]\<rparr> in
      if insert_error e then (Inl DBError, refused)
      else if CHR 0x00 \<in> set product_id \<or> \<not> int4_fits quantity then (Inl DBError, refused)
      else
        case varchar 50 product_id of
          None \<Rightarrow> (Inl DBError, refused)
        | Some stored \<Rightarrow>
            let i = orders_id_seq w in
            if i \<in> set (map row_id (orders w)) then
              (Inl DBError,
               w\<lparr>orders_id_seq := i + 1, trace := trace w @ [EvInsert product_id quantity None]\<rparr>)
            else
              (Inr i,
               w\<lparr>orders := orders w @
                    [\<lparr>row_id = i, row_product_id = stored, row_quantity = quantity,
                      row_status = ''pending'', row_created_at = current_timestamp e\<rparr>],
                 orders_id_seq := i + 1,
                 trace := trace w @ [EvInsert product_id quantity (Some i)]\<rparr>))"

definition Publish :: "env \<Rightarrow> string \<Rightarrow> json \<Rightarrow> world \<Rightarrow> error option \<times> world" where
  "Publish e ch msg w =
     (if publish_error e then (Some RedisError, w\<lparr>trace := trace w @ [EvPublish ch msg False]\<rparr>)
      else (None, w\<lparr>channel := channel w @ [(ch, msg)], trace := trace w @ [EvPublish ch msg True]\<rparr>))"

definition log_Printf :: "log_line \<Rightarrow> world \<Rightarrow> world" where
  "log_Printf l w = w\<lparr>trace := trace w @ [EvLog l]\<rparr>"

text \<open>
  The two maps the handler marshals, as the JSON objects \<open>json.Marshal\<close> writes (keys in
  alphabetical order).
\<close>

definition orderMsg :: "int \<Rightarrow> string \<Rightarrow> int \<Rightarrow> json" where
  "orderMsg orderID safeProductID quantity =
     JObject [(''order_id'', JInt orderID), (''product_id'', JString safeProductID),
              (''quantity'', JInt quantity)]"

definition okBody :: "string \<Rightarrow> int \<Rightarrow> json" where
  "okBody safeProductID orderID =
     JObject [(''order_id'', JInt orderID), (''product_id'', JString safeProductID),
              (''status'', JString ''Order processed'')]"

text \<open>\<open>buyHandler\<close> (main.go, lines 95 to 141).\<close>

definition buyHandler :: "env \<Rightarrow> Request \<Rightarrow> world \<Rightarrow> Response \<times> world" where
  "buyHandler e r w =
     (if Method r \<noteq> ''POST'' then (http_Error ''Method not allowed'' 405, w)
      else
        case Decode (Body r) zero_OrderRequest of
          (req, Some err) \<Rightarrow> (http_Error ''Invalid request body'' 400, w)
        | (req, None) \<Rightarrow>
            let safeProductID = SanitizeInput (ProductID req) in
            (case insert_order e safeProductID (Quantity req) w of
               (Inl err, w1) \<Rightarrow> (http_Error ''Database error'' 500, log_Printf LogDBInsertError w1)
             | (Inr orderID, w1) \<Rightarrow>
                 let msgBytes = orderMsg orderID safeProductID (Quantity req);
                     (err, w2) = Publish e ''orders'' msgBytes w1;
                     w3 = (if err \<noteq> None then log_Printf LogRedisPublishError w2 else w2);
                     w4 = log_Printf (LogProcessed orderID safeProductID) w3
                 in (\<lparr>StatusCode = 200, ContentType = ''application/json'',
                      Payload = Json (okBody safeProductID orderID)\<rparr>, w4)))"

text \<open>
  The members the decoder stores without a type error: a member that names
  \<open>product_id\<close> holds a string or \<open>null\<close>, a member that names \<open>quantity\<close> holds an
  integer literal of the \<open>int\<close> range or \<open>null\<close>, and any other member is free.
\<close>

fun accepted_member :: "string \<times> json \<Rightarrow> bool" where
  "accepted_member (key, v) =
     (if fold_eq key ''product_id'' then (case v of JString s \<Rightarrow> True | JNull \<Rightarrow> True | _ \<Rightarrow> False)
      else if fold_eq key ''quantity'' then (case v of JInt n \<Rightarrow> int_fits n | JNull \<Rightarrow> True | _ \<Rightarrow> False)
      else True)"

section \<open>Startup\<close>

text \<open>
  What startup does, call by call. The environment answers each call: the \<open>i\<close>-th
  \<open>sql.Open\<close> and \<open>db.Ping\<close> of the retry loop, the \<open>CREATE TABLE\<close> statement, the ping
  of the channel, and \<open>http.ListenAndServe\<close>, which returns only with an error.
\<close>

datatype boot_event =
    SqlOpen
  | DbPing
  | Sleep nat
  | ExecCreateTable
  | RedisPing
  | HandleFunc string
  | ListenAndServe string
  | LogPrint string
  | LogFatalf string

datatype run_state = Running | Exited | Serving

record boot_env =
  PORT :: string
  sql_Open :: "nat \<Rightarrow> error option"
  db_Ping :: "nat \<Rightarrow> error option"
  db_Exec :: "error option"
  rdb_Ping :: "error option"
  http_ListenAndServe :: "error option"

text \<open>
  The table of the store before and after \<open>CREATE TABLE IF NOT EXISTS orders\<close>: \<open>None\<close>
  when the table is absent, its rows otherwise.
\<close>

definition create_table_if_not_exists :: "orders_row list option \<Rightarrow> orders_row list option" where
  "create_table_if_not_exists t = (case t of None \<Rightarrow> Some [] | Some rows \<Rightarrow> Some rows)"

record boot_state =
  events :: "boot_event list"
  orders_table :: "orders_row list option"

definition emit :: "boot_event list \<Rightarrow> boot_state \<Rightarrow> boot_state" where
  "emit es s = s\<lparr>events := events s @ es\<rparr>"

text \<open>
  The retry loop of \<open>initDB\<close> (main.go, lines 43 to 54), from the index \<open>i\<close> on, with the
  variable \<open>err\<close> as the loop finds it. It returns \<open>err\<close> as the loop leaves it.
\<close>

function initDB_loop :: "boot_env \<Rightarrow> nat \<Rightarrow> error option \<Rightarrow> boot_state \<Rightarrow> error option \<times> boot_state" where
  "initDB_loop env i err s =
     (if i < 10 then
        let err = sql_Open env i;
            s = emit [SqlOpen] s;
            (err, s) = (if err = None then (db_Ping env i, emit [DbPing] s) else (err, s))
        in if err = None then (err, emit [LogPrint ''Connected to Database''] s)
           else initDB_loop env (i + 1) err
                  (emit [LogPrint ''Failed to connect to DB, retrying... (%v)'', Sleep 2] s)
      else (err, s))"
  by pat_completeness auto
termination
  by (relation "measure (\<lambda>(env, i, err, s). 10 - i)") auto

text \<open>\<open>initDB\<close> (main.go, lines 37 to 72); \<open>log.Fatalf\<close> ends the process.\<close>

definition initDB :: "boot_env \<Rightarrow> boot_state \<Rightarrow> run_state \<times> boot_state" where
  "initDB env s =
     (let (err, s) = initDB_loop env 0 None s in
      if err \<noteq> None then (Exited, emit [LogFatalf ''Could not connect to database: %v''] s)
      else
        let s = emit [ExecCreateTable] s in
        if db_Exec env \<noteq> None then (Exited, emit [LogFatalf ''Failed to create table: %v''] s)
        else (Running, s\<lparr>orders_table := create_table_if_not_exists (orders_table s)\<rparr>))"

text \<open>\<open>initRedis\<close> (main.go, lines 74 to 84).\<close>

definition initRedis :: "boot_env \<Rightarrow> boot_state \<Rightarrow> run_state \<times> boot_state" where
  "initRedis env s =
     (let s = emit [RedisPing] s in
      if rdb_Ping env \<noteq> None then (Exited, emit [LogFatalf ''Could not connect to Redis: %v''] s)
      else (Running, emit [LogPrint ''Connected to Redis''] s))"

text \<open>
  \<open>main\<close> (main.go, lines 143 to 163). The process serves requests from the call of
  \<open>http.ListenAndServe\<close> on.
\<close>

definition main :: "boot_env \<Rightarrow> boot_state \<Rightarrow> run_state \<times> boot_state" where
  "main env s =
     (let port = (if PORT env = [] then ''8080'' else PORT env) in
      case initDB env s of
        (Running, s) \<Rightarrow>
          (case initRedis env s of
             (Running, s) \<Rightarrow>
               let s = emit [HandleFunc ''/health'', HandleFunc ''/buy'',
                             LogPrint (''Store API (Secure) starting on port '' @ port @ ''...''),
                             ListenAndServe ('':'' @ port)] s
               in if http_ListenAndServe env \<noteq> None
                  then (Exited, emit [LogFatalf ''Failed to start server: %v''] s)
                  else (Serving, s)
           | (st, s) \<Rightarrow> (st, s))
      | (st, s) \<Rightarrow> (st, s))"

text \<open>
  One pass of the retry loop that fails, as the events it leaves: the open, the ping when
  the open went through, the log line and the wait of two seconds.
\<close>

definition connects :: "boot_env \<Rightarrow> nat \<Rightarrow> bool" where
  "connects env i = (sql_Open env i = None \<and> db_Ping env i = None)"

definition failed_attempt :: "boot_env \<Rightarrow> nat \<Rightarrow> boot_event list" where
  "failed_attempt env i =
     SqlOpen # (if sql_Open env i = None then [DbPing] else []) @
     [LogPrint ''Failed to connect to DB, retrying... (%v)'', Sleep 2]"

text \<open>
  Startup as the specification words it: up to ten attempts, each failed one followed by
  its wait; at the first attempt that connects the table is created, the channel is pinged
  once and the server listens; the process exits when no attempt connects, when the table
  cannot be created and when the channel does not answer.
\<close>

definition startup_spec :: "boot_env \<Rightarrow> boot_state \<Rightarrow> run_state \<times> boot_state" where
  "startup_spec env s =
     (case List.find (connects env) [0..<10] of
        None \<Rightarrow>
          (Exited,
           s\<lparr>events := events s @ concat (map (failed_attempt env) [0..<10]) @
                      [LogFatalf ''Could not connect to database: %v'']\<rparr>)
      | Some n \<Rightarrow>
          let connected = concat (map (failed_attempt env) [0..<n]) @
                [SqlOpen, DbPing, LogPrint ''Connected to Database'', ExecCreateTable];
              created = (case orders_table s of None \<Rightarrow> Some [] | Some rows \<Rightarrow> Some rows);
              port = (if PORT env = [] then ''8080'' else PORT env);
              serving = connected @
                [RedisPing, LogPrint ''Connected to Redis'', HandleFunc ''/health'', HandleFunc ''/buy'',
                 LogPrint (''Store API (Secure) starting on port '' @ port @ ''...''),
                 ListenAndServe ('':'' @ port)]
          in if db_Exec env \<noteq> None then
               (Exited,
                s\<lparr>events := events s @ connected @ [LogFatalf ''Failed to create table: %v'']\<rparr>)
             else if rdb_Ping env \<noteq> None then
               (Exited,
                s\<lparr>events := events s @ connected @
                             [RedisPing, LogFatalf ''Could not connect to Redis: %v''],
                  orders_table := created\<rparr>)
             else if http_ListenAndServe env \<noteq> None then
               (Exited,
                s\<lparr>events := events s @ serving @ [LogFatalf ''Failed to start server: %v''],
                  orders_table := created\<rparr>)
             else (Serving, s\<lparr>events := events s @ serving, orders_table := created\<rparr>))"

section \<open>Properties of the sanitizer\<close>

lemma ReplaceAll_single_char: "ReplaceAll s [x] [] = filter (\<lambda>c. c \<noteq> x) s"
  by (induction s) auto

lemma SanitizeInput_filter: "SanitizeInput s = filter (\<lambda>c. c \<notin> denylist) s"
  by (simp add: SanitizeInput_def ReplaceAll_single_char denylist_def conj_commute conj_left_commute)

text \<open>
  Claim C4. For every input, \<open>SanitizeInput\<close> returns the input without the characters
  \<open><\<close>, \<open>>\<close>, \<open>'\<close> and \<open>;\<close>, every other character kept in its place in the order; the
  input \<open><script>\<close> becomes \<open>script\<close>.
\<close>

theorem SanitizeInput_strips_denylist:
  "SanitizeInput s = filter (\<lambda>c. c \<notin> {CHR ''<'', CHR ''>'', CHR 0x27, CHR '';''}) s
   \<and> SanitizeInput ''<script>'' = ''script''"
  by (simp add: SanitizeInput_def ReplaceAll_single_char conj_commute conj_left_commute)

text \<open>
  Claim C8. \<open>SanitizeInput\<close> is idempotent, and its output holds none of the characters
  \<open><\<close>, \<open>>\<close>, \<open>'\<close> and \<open>;\<close>.
\<close>

theorem SanitizeInput_idempotent:
  "SanitizeInput (SanitizeInput s) = SanitizeInput s
   \<and> set (SanitizeInput s) \<inter> {CHR ''<'', CHR ''>'', CHR 0x27, CHR '';''} = {}"
  by (auto simp add: SanitizeInput_filter denylist_def)

section \<open>Properties of the handler\<close>

lemma take_chars_short: "char_length s \<le> n \<Longrightarrow> take_chars n s = s"
proof (induction s arbitrary: n)
  case Nil
  then show ?case by simp
next
  case (Cons c cs)
  show ?case
  proof (cases "is_continuation c")
    case True
    then show ?thesis using Cons by (simp add: char_length_def)
  next
    case False
    then have "0 < n" and "char_length cs \<le> n - 1"
      using Cons.prems by (simp_all add: char_length_def)
    then show ?thesis using False Cons.IH [of "n - 1"] by simp
  qed
qed

lemma insert_order_Inl:
  "insert_order e p q w = (Inl err, w1) \<Longrightarrow>
     orders w1 = orders w \<and> channel w1 = channel w \<and> trace w1 = trace w @ [EvInsert p q None]"
  by (auto simp add: insert_order_def Let_def split: if_splits option.splits)

lemma insert_order_Inr:
  "insert_order e p q w = (Inr i, w1) \<Longrightarrow>
     i = orders_id_seq w \<and> i \<notin> set (map row_id (orders w)) \<and>
     orders w1 = orders w @ [\<lparr>row_id = i, row_product_id = take_chars 50 p, row_quantity = q,
                  row_status = ''pending'', row_created_at = current_timestamp e\<rparr>] \<and>
     channel w1 = channel w \<and> trace w1 = trace w @ [EvInsert p q (Some i)] \<and>
     list_all (\<lambda>c. c = CHR '' '') (drop (length (take_chars 50 p)) p) \<and> int4_fits q"
  by (auto simp add: insert_order_def varchar_def Let_def split: if_splits option.splits)

lemma insert_order_publish_error:
  "insert_order (e\<lparr>publish_error := b\<rparr>) p q w = insert_order e p q w"
  by (simp add: insert_order_def Let_def split: option.splits)

lemma buyHandler_not_POST:
  "Method r \<noteq> ''POST'' \<Longrightarrow> buyHandler e r w = (http_Error ''Method not allowed'' 405, w)"
  by (simp add: buyHandler_def)

lemma buyHandler_bad_body:
  assumes "Method r = ''POST''" and "Decode (Body r) zero_OrderRequest = (req, Some err)"
  shows "buyHandler e r w = (http_Error ''Invalid request body'' 400, w)"
  using assms by (simp add: buyHandler_def)

lemma buyHandler_insert_failed:
  assumes "Method r = ''POST''" and "Decode (Body r) zero_OrderRequest = (req, None)"
    and "insert_order e (SanitizeInput (ProductID req)) (Quantity req) w = (Inl err, w1)"
  shows "buyHandler e r w = (http_Error ''Database error'' 500, log_Printf LogDBInsertError w1)"
  using assms by (simp add: buyHandler_def)

lemma buyHandler_inserted:
  assumes "Method r = ''POST''" and "Decode (Body r) zero_OrderRequest = (req, None)"
    and "insert_order e (SanitizeInput (ProductID req)) (Quantity req) w = (Inr oid, w1)"
  shows "buyHandler e r w =
    (\<lparr>StatusCode = 200, ContentType = ''application/json'',
       Payload = Json (okBody (SanitizeInput (ProductID req)) oid)\<rparr>,
     log_Printf (LogProcessed oid (SanitizeInput (ProductID req)))
       (if publish_error e
        then log_Printf LogRedisPublishError
               (w1\<lparr>trace := trace w1 @ [EvPublish ''orders'' (orderMsg oid (SanitizeInput (ProductID req)) (Quantity req)) False]\<rparr>)
        else w1\<lparr>channel := channel w1 @ [(''orders'', orderMsg oid (SanitizeInput (ProductID req)) (Quantity req))],
                trace := trace w1 @ [EvPublish ''orders'' (orderMsg oid (SanitizeInput (ProductID req)) (Quantity req)) True]\<rparr>))"
  using assms by (simp add: buyHandler_def Publish_def Let_def)

text \<open>
  Claim C7. A request whose method is not \<open>POST\<close> is answered 405, and a \<open>POST\<close> whose
  body does not decode is answered 400; in both cases the world is left as it was: no row,
  no message on the channel, no call to the store or the channel.
\<close>

theorem client_errors_have_no_effect:
  "(Method r \<noteq> ''POST'' \<longrightarrow>
      StatusCode (fst (buyHandler e r w)) = 405 \<and> snd (buyHandler e r w) = w)
   \<and> (Method r = ''POST'' \<and> snd (Decode (Body r) zero_OrderRequest) \<noteq> None \<longrightarrow>
      StatusCode (fst (buyHandler e r w)) = 400 \<and> snd (buyHandler e r w) = w)"
  by (cases "Decode (Body r) zero_OrderRequest")
     (auto simp add: buyHandler_not_POST buyHandler_bad_body http_Error_def)

theorem client_errors_have_no_effect_witness:
  "(Method \<lparr>Method = ''GET'', Body = Some (JObject [])\<rparr> \<noteq> ''POST''
    \<and> StatusCode (fst (buyHandler
        \<lparr>insert_error = False, publish_error = False, current_timestamp = 7\<rparr>
        \<lparr>Method = ''GET'', Body = Some (JObject [])\<rparr>
        \<lparr>orders = [], orders_id_seq = 1, channel = [], trace = []\<rparr>)) = 405
    \<and> snd (buyHandler
        \<lparr>insert_error = False, publish_error = False, current_timestamp = 7\<rparr>
        \<lparr>Method = ''GET'', Body = Some (JObject [])\<rparr>
        \<lparr>orders = [], orders_id_seq = 1, channel = [], trace = []\<rparr>) =
        \<lparr>orders = [], orders_id_seq = 1, channel = [], trace = []\<rparr>)
   \<and> (Method \<lparr>Method = ''POST'', Body = None\<rparr> = ''POST''
    \<and> snd (Decode (Body \<lparr>Method = ''POST'', Body = None\<rparr>) zero_OrderRequest) \<noteq> None
    \<and> StatusCode (fst (buyHandler
        \<lparr>insert_error = False, publish_error = False, current_timestamp = 7\<rparr>
        \<lparr>Method = ''POST'', Body = None\<rparr>
        \<lparr>orders = [], orders_id_seq = 1, channel = [], trace = []\<rparr>)) = 400
    \<and> snd (buyHandler
        \<lparr>insert_error = False, publish_error = False, current_timestamp = 7\<rparr>
        \<lparr>Method = ''POST'', Body = None\<rparr>
        \<lparr>orders = [], orders_id_seq = 1, channel = [], trace = []\<rparr>) =
        \<lparr>orders = [], orders_id_seq = 1, channel = [], trace = []\<rparr>)"
  using client_errors_have_no_effect
          [where r = "\<lparr>Method = ''GET'', Body = Some (JObject [])\<rparr>"
             and e = "\<lparr>insert_error = False, publish_error = False, current_timestamp = 7\<rparr>"
             and w = "\<lparr>orders = [], orders_id_seq = 1, channel = [], trace = []\<rparr>"]
        client_errors_have_no_effect
          [where r = "\<lparr>Method = ''POST'', Body = None\<rparr>"
             and e = "\<lparr>insert_error = False, publish_error = False, current_timestamp = 7\<rparr>"
             and w = "\<lparr>orders = [], orders_id_seq = 1, channel = [], trace = []\<rparr>"]
  by (simp add: Decode_def)

text \<open>
  Claim C2. For a request whose body decodes, when the insert fails the answer is 500 with
  the plain text of the error (no order identifier), the table and the channel are as
  before, and the request's calls are the failed insert and the log line: the publish is
  not reached. The insert is reached by a \<open>POST\<close> only.
\<close>

theorem insert_failure_is_internal_error:
  assumes "Method r = ''POST''"
    and "Decode (Body r) zero_OrderRequest = (req, None)"
    and "fst (insert_order e (SanitizeInput (ProductID req)) (Quantity req) w) = Inl err"
  shows "fst (buyHandler e r w) = http_Error ''Database error'' 500
       \<and> StatusCode (fst (buyHandler e r w)) = 500
       \<and> orders (snd (buyHandler e r w)) = orders w
       \<and> channel (snd (buyHandler e r w)) = channel w
       \<and> trace (snd (buyHandler e r w)) =
           trace w @ [EvInsert (SanitizeInput (ProductID req)) (Quantity req) None,
                      EvLog LogDBInsertError]"
proof -
  obtain w1 where ins: "insert_order e (SanitizeInput (ProductID req)) (Quantity req) w = (Inl err, w1)"
    using assms(3) by (cases "insert_order e (SanitizeInput (ProductID req)) (Quantity req) w") auto
  show ?thesis
    using insert_order_Inl [OF ins]
    by (simp add: buyHandler_insert_failed [OF assms(1,2) ins] log_Printf_def http_Error_def)
qed

theorem insert_failure_is_internal_error_witness:
  "Method \<lparr>Method = ''POST'', Body = Some (JObject [(''product_id'', JString ''<script>''), (''quantity'', JInt 2)])\<rparr> = ''POST''
   \<and> Decode (Body \<lparr>Method = ''POST'', Body = Some (JObject [(''product_id'', JString ''<script>''), (''quantity'', JInt 2)])\<rparr>)
        zero_OrderRequest = (\<lparr>ProductID = ''<script>'', Quantity = 2\<rparr>, None)
   \<and> fst (insert_order \<lparr>insert_error = True, publish_error = False, current_timestamp = 7\<rparr>
        (SanitizeInput (ProductID \<lparr>ProductID = ''<script>'', Quantity = 2\<rparr>))
        (Quantity \<lparr>ProductID = ''<script>'', Quantity = 2\<rparr>)
        \<lparr>orders = [], orders_id_seq = 1, channel = [], trace = []\<rparr>) = Inl DBError
   \<and> StatusCode (fst (buyHandler
        \<lparr>insert_error = True, publish_error = False, current_timestamp = 7\<rparr>
        \<lparr>Method = ''POST'', Body = Some (JObject [(''product_id'', JString ''<script>''), (''quantity'', JInt 2)])\<rparr>
        \<lparr>orders = [], orders_id_seq = 1, channel = [], trace = []\<rparr>)) = 500
   \<and> orders (snd (buyHandler
        \<lparr>insert_error = True, publish_error = False, current_timestamp = 7\<rparr>
        \<lparr>Method = ''POST'', Body = Some (JObject [(''product_id'', JString ''<script>''), (''quantity'', JInt 2)])\<rparr>
        \<lparr>orders = [], orders_id_seq = 1, channel = [], trace = []\<rparr>)) = []
   \<and> channel (snd (buyHandler
        \<lparr>insert_error = True, publish_error = False, current_timestamp = 7\<rparr>
        \<lparr>Method = ''POST'', Body = Some (JObject [(''product_id'', JString ''<script>''), (''quantity'', JInt 2)])\<rparr>
        \<lparr>orders = [], orders_id_seq = 1, channel = [], trace = []\<rparr>)) = []"
proof -
  have h1: "Method \<lparr>Method = ''POST'', Body = Some (JObject [(''product_id'', JString ''<script>''), (''quantity'', JInt 2)])\<rparr> = ''POST''"
    by simp
  have h2: "Decode (Body \<lparr>Method = ''POST'', Body = Some (JObject [(''product_id'', JString ''<script>''), (''quantity'', JInt 2)])\<rparr>)
        zero_OrderRequest = (\<lparr>ProductID = ''<script>'', Quantity = 2\<rparr>, None)"
    by code_simp
  have h3: "fst (insert_order \<lparr>insert_error = True, publish_error = False, current_timestamp = 7\<rparr>
        (SanitizeInput (ProductID \<lparr>ProductID = ''<script>'', Quantity = 2\<rparr>))
        (Quantity \<lparr>ProductID = ''<script>'', Quantity = 2\<rparr>)
        \<lparr>orders = [], orders_id_seq = 1, channel = [], trace = []\<rparr>) = Inl DBError"
    by (simp add: insert_order_def)
  show ?thesis
    using insert_failure_is_internal_error [OF h1 h2 h3] h1 h2 h3 by (simp add: http_Error_def)
qed

text \<open>
  Claim C1. For a request whose body decodes and whose insert succeeds, when the publish
  fails the handler logs the failure and answers 200 with the JSON object that holds the
  order identifier of the insert: one row is added, and the answer and the table are
  those of the same request with a publish that succeeds.
\<close>

theorem publish_failure_is_not_fatal:
  assumes "Method r = ''POST''"
    and "Decode (Body r) zero_OrderRequest = (req, None)"
    and "fst (insert_order e (SanitizeInput (ProductID req)) (Quantity req) w) = Inr orderID"
    and "publish_error e"
  shows "fst (buyHandler e r w) =
           \<lparr>StatusCode = 200, ContentType = ''application/json'',
             Payload = Json (JObject [(''order_id'', JInt orderID), (''product_id'', JString (SanitizeInput (ProductID req))),
                 (''status'', JString ''Order processed'')])\<rparr>
       \<and> fst (buyHandler (e\<lparr>publish_error := False\<rparr>) r w) = fst (buyHandler e r w)
       \<and> orders (snd (buyHandler e r w)) =
           orders w @ [\<lparr>row_id = orderID, row_product_id = take_chars 50 (SanitizeInput (ProductID req)),
               row_quantity = Quantity req, row_status = ''pending'', row_created_at = current_timestamp e\<rparr>]
       \<and> orders (snd (buyHandler (e\<lparr>publish_error := False\<rparr>) r w)) = orders (snd (buyHandler e r w))
       \<and> channel (snd (buyHandler e r w)) = channel w
       \<and> trace (snd (buyHandler e r w)) =
           trace w @ [EvInsert (SanitizeInput (ProductID req)) (Quantity req) (Some orderID),
                      EvPublish ''orders''
                        (JObject [(''order_id'', JInt orderID), (''product_id'', JString (SanitizeInput (ProductID req))),
                 (''quantity'', JInt (Quantity req))]) False,
                      EvLog LogRedisPublishError,
                      EvLog (LogProcessed orderID (SanitizeInput (ProductID req)))]"
proof -
  obtain w1 where ins: "insert_order e (SanitizeInput (ProductID req)) (Quantity req) w = (Inr orderID, w1)"
    using assms(3) by (cases "insert_order e (SanitizeInput (ProductID req)) (Quantity req) w") auto
  have ins': "insert_order (e\<lparr>publish_error := False\<rparr>) (SanitizeInput (ProductID req)) (Quantity req) w = (Inr orderID, w1)"
    using ins by (simp add: insert_order_publish_error)
  note w1 = insert_order_Inr [OF ins]
  note fail = buyHandler_inserted [OF assms(1,2) ins]
  note ok = buyHandler_inserted [OF assms(1,2) ins']
  show ?thesis
    using assms(4) w1 by (simp add: fail ok log_Printf_def okBody_def orderMsg_def)
qed

theorem publish_failure_is_not_fatal_witness:
  "Method \<lparr>Method = ''POST'', Body = Some (JObject [(''product_id'', JString ''<script>''), (''quantity'', JInt 2)])\<rparr> = ''POST''
   \<and> Decode (Body \<lparr>Method = ''POST'', Body = Some (JObject [(''product_id'', JString ''<script>''), (''quantity'', JInt 2)])\<rparr>)
        zero_OrderRequest = (\<lparr>ProductID = ''<script>'', Quantity = 2\<rparr>, None)
   \<and> fst (insert_order \<lparr>insert_error = False, publish_error = True, current_timestamp = 7\<rparr>
        (SanitizeInput (ProductID \<lparr>ProductID = ''<script>'', Quantity = 2\<rparr>))
        (Quantity \<lparr>ProductID = ''<script>'', Quantity = 2\<rparr>)
        \<lparr>orders = [], orders_id_seq = 1, channel = [], trace = []\<rparr>) = Inr 1
   \<and> publish_error \<lparr>insert_error = False, publish_error = True, current_timestamp = 7\<rparr>
   \<and> fst (buyHandler
        \<lparr>insert_error = False, publish_error = True, current_timestamp = 7\<rparr>
        \<lparr>Method = ''POST'', Body = Some (JObject [(''product_id'', JString ''<script>''), (''quantity'', JInt 2)])\<rparr>
        \<lparr>orders = [], orders_id_seq = 1, channel = [], trace = []\<rparr>) =
       \<lparr>StatusCode = 200, ContentType = ''application/json'',
         Payload = Json (JObject [(''order_id'', JInt 1), (''product_id'', JString ''script''),
                 (''status'', JString ''Order processed'')])\<rparr>
   \<and> orders (snd (buyHandler
        \<lparr>insert_error = False, publish_error = True, current_timestamp = 7\<rparr>
        \<lparr>Method = ''POST'', Body = Some (JObject [(''product_id'', JString ''<script>''), (''quantity'', JInt 2)])\<rparr>
        \<lparr>orders = [], orders_id_seq = 1, channel = [], trace = []\<rparr>)) =
       [\<lparr>row_id = 1, row_product_id = ''script'',
               row_quantity = 2, row_status = ''pending'', row_created_at = 7\<rparr>]
   \<and> channel (snd (buyHandler
        \<lparr>insert_error = False, publish_error = True, current_timestamp = 7\<rparr>
        \<lparr>Method = ''POST'', Body = Some (JObject [(''product_id'', JString ''<script>''), (''quantity'', JInt 2)])\<rparr>
        \<lparr>orders = [], orders_id_seq = 1, channel = [], trace = []\<rparr>)) = []"
proof -
  have h1: "Method \<lparr>Method = ''POST'', Body = Some (JObject [(''product_id'', JString ''<script>''), (''quantity'', JInt 2)])\<rparr> = ''POST''"
    by simp
  have h2: "Decode (Body \<lparr>Method = ''POST'', Body = Some (JObject [(''product_id'', JString ''<script>''), (''quantity'', JInt 2)])\<rparr>)
        zero_OrderRequest = (\<lparr>ProductID = ''<script>'', Quantity = 2\<rparr>, None)"
    by code_simp
  have h3: "fst (insert_order \<lparr>insert_error = False, publish_error = True, current_timestamp = 7\<rparr>
        (SanitizeInput (ProductID \<lparr>ProductID = ''<script>'', Quantity = 2\<rparr>))
        (Quantity \<lparr>ProductID = ''<script>'', Quantity = 2\<rparr>)
        \<lparr>orders = [], orders_id_seq = 1, channel = [], trace = []\<rparr>) = Inr 1"
    by code_simp
  have h4: "publish_error \<lparr>insert_error = False, publish_error = True, current_timestamp = 7\<rparr>"
    by simp
  have s: "SanitizeInput ''<script>'' = ''script''"
    by (simp add: SanitizeInput_def)
  have c: "take_chars 50 ''script'' = ''script''"
    by (simp add: is_continuation_def)
  show ?thesis
    using publish_failure_is_not_fatal [OF h1 h2 h3 h4] h1 h2 h3 h4 by (simp add: s c is_continuation_def)
qed

text \<open>
  Claim C3, as the code has it. A request answered 200 gets the JSON object of the status
  text, the sanitized product identifier and the order identifier, and the table then
  holds exactly one row of that identifier: its quantity is the submitted one, its status
  \<open>pending\<close>, and its product identifier is the sanitized input cut to the 50 characters
  of the column. That is the sanitized input itself when it has at most 50 characters;
  when it has more, what is cut is blanks only.
\<close>

theorem ok_response_names_one_row:
  assumes "StatusCode (fst (buyHandler e r w)) = 200"
  shows "\<exists>orderID.
           fst (buyHandler e r w) =
             \<lparr>StatusCode = 200, ContentType = ''application/json'',
               Payload = Json (JObject
                 [(''order_id'', JInt orderID),
                  (''product_id'', JString (SanitizeInput (ProductID (fst (Decode (Body r) zero_OrderRequest))))),
                  (''status'', JString ''Order processed'')])\<rparr>
         \<and> filter (\<lambda>row. row_id row = orderID) (orders (snd (buyHandler e r w))) =
             [\<lparr>row_id = orderID,
               row_product_id = take_chars 50 (SanitizeInput (ProductID (fst (Decode (Body r) zero_OrderRequest)))),
               row_quantity = Quantity (fst (Decode (Body r) zero_OrderRequest)),
               row_status = ''pending'',
               row_created_at = current_timestamp e\<rparr>]
         \<and> (char_length (SanitizeInput (ProductID (fst (Decode (Body r) zero_OrderRequest)))) \<le> 50 \<longrightarrow>
               take_chars 50 (SanitizeInput (ProductID (fst (Decode (Body r) zero_OrderRequest)))) = SanitizeInput (ProductID (fst (Decode (Body r) zero_OrderRequest))))
         \<and> list_all (\<lambda>c. c = CHR '' '')
               (drop (length (take_chars 50 (SanitizeInput (ProductID (fst (Decode (Body r) zero_OrderRequest)))))) (SanitizeInput (ProductID (fst (Decode (Body r) zero_OrderRequest)))))"
proof -
  have post: "Method r = ''POST''"
    using assms by (auto simp add: buyHandler_def http_Error_def split: if_splits)
  obtain req err where dec: "Decode (Body r) zero_OrderRequest = (req, err)"
    by (cases "Decode (Body r) zero_OrderRequest") auto
  have "err = None"
    using assms buyHandler_bad_body [OF post, of req _ e w] dec
    by (cases err) (auto simp add: http_Error_def)
  with dec have dec: "Decode (Body r) zero_OrderRequest = (req, None)" by simp
  obtain res w1 where ins: "insert_order e (SanitizeInput (ProductID req)) (Quantity req) w = (res, w1)"
    by (cases "insert_order e (SanitizeInput (ProductID req)) (Quantity req) w") auto
  show ?thesis
  proof (cases res)
    case (Inl a)
    with assms buyHandler_insert_failed [OF post dec, of e w a w1] ins
    show ?thesis by (simp add: http_Error_def)
  next
    case (Inr oid)
    with ins have ins: "insert_order e (SanitizeInput (ProductID req)) (Quantity req) w = (Inr oid, w1)"
      by simp
    have nf: "filter (\<lambda>row. row_id row = oid) (orders w) = []"
      using insert_order_Inr [OF ins] by (auto simp add: filter_empty_conv image_iff)
    show ?thesis
      using insert_order_Inr [OF ins] nf
      by (intro exI [of _ oid])
         (simp add: buyHandler_inserted [OF post dec ins] dec log_Printf_def okBody_def
            take_chars_short)
  qed
qed

theorem ok_response_names_one_row_witness:
  "StatusCode (fst (buyHandler
        \<lparr>insert_error = False, publish_error = False, current_timestamp = 7\<rparr>
        \<lparr>Method = ''POST'', Body = Some (JObject [(''product_id'', JString ''<script>''), (''quantity'', JInt 2)])\<rparr>
        \<lparr>orders = [], orders_id_seq = 1, channel = [], trace = []\<rparr>)) = 200
   \<and> (\<exists>orderID.
        Payload (fst (buyHandler
        \<lparr>insert_error = False, publish_error = False, current_timestamp = 7\<rparr>
        \<lparr>Method = ''POST'', Body = Some (JObject [(''product_id'', JString ''<script>''), (''quantity'', JInt 2)])\<rparr>
        \<lparr>orders = [], orders_id_seq = 1, channel = [], trace = []\<rparr>)) =
          Json (JObject [(''order_id'', JInt orderID), (''product_id'', JString ''script''),
                 (''status'', JString ''Order processed'')])
      \<and> filter (\<lambda>row. row_id row = orderID) (orders (snd (buyHandler
        \<lparr>insert_error = False, publish_error = False, current_timestamp = 7\<rparr>
        \<lparr>Method = ''POST'', Body = Some (JObject [(''product_id'', JString ''<script>''), (''quantity'', JInt 2)])\<rparr>
        \<lparr>orders = [], orders_id_seq = 1, channel = [], trace = []\<rparr>))) =
          [\<lparr>row_id = orderID, row_product_id = ''script'',
               row_quantity = 2, row_status = ''pending'', row_created_at = 7\<rparr>])"
proof -
  have h: "StatusCode (fst (buyHandler
        \<lparr>insert_error = False, publish_error = False, current_timestamp = 7\<rparr>
        \<lparr>Method = ''POST'', Body = Some (JObject [(''product_id'', JString ''<script>''), (''quantity'', JInt 2)])\<rparr>
        \<lparr>orders = [], orders_id_seq = 1, channel = [], trace = []\<rparr>)) = 200"
    by code_simp
  have d: "Decode (Some (JObject [(''product_id'', JString ''<script>''), (''quantity'', JInt 2)]))
        zero_OrderRequest = (\<lparr>ProductID = ''<script>'', Quantity = 2\<rparr>, None)"
    by code_simp
  have s: "SanitizeInput ''<script>'' = ''script''"
    by (simp add: SanitizeInput_def)
  have c: "take_chars 50 ''script'' = ''script''"
    by (simp add: is_continuation_def)
  from ok_response_names_one_row [OF h] obtain orderID where
    "fst (buyHandler
        \<lparr>insert_error = False, publish_error = False, current_timestamp = 7\<rparr>
        \<lparr>Method = ''POST'', Body = Some (JObject [(''product_id'', JString ''<script>''), (''quantity'', JInt 2)])\<rparr>
        \<lparr>orders = [], orders_id_seq = 1, channel = [], trace = []\<rparr>) =
       \<lparr>StatusCode = 200, ContentType = ''application/json'',
         Payload = Json (JObject [(''order_id'', JInt orderID), (''product_id'', JString ''script''),
                 (''status'', JString ''Order processed'')])\<rparr>
     \<and> filter (\<lambda>row. row_id row = orderID) (orders (snd (buyHandler
        \<lparr>insert_error = False, publish_error = False, current_timestamp = 7\<rparr>
        \<lparr>Method = ''POST'', Body = Some (JObject [(''product_id'', JString ''<script>''), (''quantity'', JInt 2)])\<rparr>
        \<lparr>orders = [], orders_id_seq = 1, channel = [], trace = []\<rparr>))) =
          [\<lparr>row_id = orderID, row_product_id = ''script'',
               row_quantity = 2, row_status = ''pending'', row_created_at = 7\<rparr>]"
    by (auto simp add: d s c is_continuation_def)
  then show ?thesis using h by auto
qed

text \<open>
  The claim as stated fails. The product identifier of fifty letters \<open>a\<close> and a blank
  has nothing to sanitize; the request is answered 200 with that identifier, and the row
  holds the fifty letters without the blank.
\<close>

theorem blank_padded_id_is_stored_cut:
  "StatusCode (fst (buyHandler
        \<lparr>insert_error = False, publish_error = False, current_timestamp = 7\<rparr>
        \<lparr>Method = ''POST'', Body = Some (JObject [(''product_id'', JString (replicate 50 (CHR ''a'') @ '' '')), (''quantity'', JInt 2)])\<rparr>
        \<lparr>orders = [], orders_id_seq = 1, channel = [], trace = []\<rparr>)) = 200
   \<and> SanitizeInput (replicate 50 (CHR ''a'') @ '' '') = replicate 50 (CHR ''a'') @ '' ''
   \<and> map row_product_id (orders (snd (buyHandler
        \<lparr>insert_error = False, publish_error = False, current_timestamp = 7\<rparr>
        \<lparr>Method = ''POST'', Body = Some (JObject [(''product_id'', JString (replicate 50 (CHR ''a'') @ '' '')), (''quantity'', JInt 2)])\<rparr>
        \<lparr>orders = [], orders_id_seq = 1, channel = [], trace = []\<rparr>))) = [replicate 50 (CHR ''a'')]
   \<and> replicate 50 (CHR ''a'') \<noteq> SanitizeInput (replicate 50 (CHR ''a'') @ '' '')"
  by code_simp

text \<open>
  Claim C5, as the code has it. Whenever a request makes a publish call, the calls of that
  request before it are exactly one insert, which returned an identifier; the message goes
  to the channel \<open>orders\<close> and carries that identifier with the sanitized product
  identifier and the quantity that were given to the insert; the row of that identifier is
  in the table, with that quantity and with the product identifier cut to the 50
  characters of the column (the same identifier when it has at most 50 characters); and
  nothing else reaches the channel.
\<close>

theorem publish_only_after_persist:
  assumes "trace (snd (buyHandler e r w)) = trace w @ pre @ EvPublish ch msg ok # post"
  shows "pre = [EvInsert (SanitizeInput (ProductID (fst (Decode (Body r) zero_OrderRequest))))
                  (Quantity (fst (Decode (Body r) zero_OrderRequest))) (Some (orders_id_seq w))]
       \<and> fst (insert_order e (SanitizeInput (ProductID (fst (Decode (Body r) zero_OrderRequest))))
                  (Quantity (fst (Decode (Body r) zero_OrderRequest))) w) = Inr (orders_id_seq w)
       \<and> ch = ''orders''
       \<and> msg = JObject
           [(''order_id'', JInt (orders_id_seq w)),
            (''product_id'', JString (SanitizeInput (ProductID (fst (Decode (Body r) zero_OrderRequest))))),
            (''quantity'', JInt (Quantity (fst (Decode (Body r) zero_OrderRequest))))]
       \<and> \<lparr>row_id = orders_id_seq w,
           row_product_id = take_chars 50 (SanitizeInput (ProductID (fst (Decode (Body r) zero_OrderRequest)))),
           row_quantity = Quantity (fst (Decode (Body r) zero_OrderRequest)),
           row_status = ''pending'',
           row_created_at = current_timestamp e\<rparr> \<in> set (orders (snd (buyHandler e r w)))
       \<and> (char_length (SanitizeInput (ProductID (fst (Decode (Body r) zero_OrderRequest)))) \<le> 50 \<longrightarrow>
             take_chars 50 (SanitizeInput (ProductID (fst (Decode (Body r) zero_OrderRequest)))) = SanitizeInput (ProductID (fst (Decode (Body r) zero_OrderRequest))))
       \<and> set (channel (snd (buyHandler e r w))) \<subseteq> insert (ch, msg) (set (channel w))"
proof -
  have post: "Method r = ''POST''"
    using assms by (cases "Method r = ''POST''") (simp_all add: buyHandler_not_POST)
  obtain req err where dec: "Decode (Body r) zero_OrderRequest = (req, err)"
    by (cases "Decode (Body r) zero_OrderRequest") auto
  have "err = None"
    using assms buyHandler_bad_body [OF post, of req _ e w] dec by (cases err) auto
  with dec have dec: "Decode (Body r) zero_OrderRequest = (req, None)" by simp
  obtain res w1 where ins: "insert_order e (SanitizeInput (ProductID req)) (Quantity req) w = (res, w1)"
    by (cases "insert_order e (SanitizeInput (ProductID req)) (Quantity req) w") auto
  show ?thesis
  proof (cases res)
    case (Inl a)
    with ins have ins: "insert_order e (SanitizeInput (ProductID req)) (Quantity req) w = (Inl a, w1)"
      by simp
    have "trace (snd (buyHandler e r w)) =
            trace w @ [EvInsert (SanitizeInput (ProductID req)) (Quantity req) None, EvLog LogDBInsertError]"
      using insert_order_Inl [OF ins]
      by (simp add: buyHandler_insert_failed [OF post dec ins] log_Printf_def)
    with assms have False
      by (auto simp add: append_eq_Cons_conv Cons_eq_append_conv)
    then show ?thesis ..
  next
    case (Inr oid)
    with ins have ins: "insert_order e (SanitizeInput (ProductID req)) (Quantity req) w = (Inr oid, w1)"
      by simp
    note w1 = insert_order_Inr [OF ins]
    have tr: "trace (snd (buyHandler e r w)) =
            trace w @ EvInsert (SanitizeInput (ProductID req)) (Quantity req) (Some oid)
              # EvPublish ''orders'' (orderMsg oid (SanitizeInput (ProductID req)) (Quantity req)) (\<not> publish_error e)
              # (if publish_error e then [EvLog LogRedisPublishError] else [])
              @ [EvLog (LogProcessed oid (SanitizeInput (ProductID req)))]"
      using w1 by (simp add: buyHandler_inserted [OF post dec ins] log_Printf_def)
    have shape: "pre = [EvInsert (SanitizeInput (ProductID req)) (Quantity req) (Some oid)]
        \<and> ch = ''orders'' \<and> msg = orderMsg oid (SanitizeInput (ProductID req)) (Quantity req)"
      using assms unfolding tr
      by (auto simp add: append_eq_Cons_conv Cons_eq_append_conv split: if_splits)
    show ?thesis
      using w1 shape ins
      by (auto simp add: buyHandler_inserted [OF post dec ins] dec log_Printf_def orderMsg_def
            take_chars_short)
  qed
qed

theorem publish_only_after_persist_witness:
  "trace (snd (buyHandler
        \<lparr>insert_error = False, publish_error = False, current_timestamp = 7\<rparr>
        \<lparr>Method = ''POST'', Body = Some (JObject [(''product_id'', JString ''<script>''), (''quantity'', JInt 2)])\<rparr>
        \<lparr>orders = [], orders_id_seq = 1, channel = [], trace = []\<rparr>)) =
     trace \<lparr>orders = [], orders_id_seq = 1, channel = [], trace = []\<rparr> @
     [EvInsert ''script'' 2 (Some 1)] @
     EvPublish ''orders''
       (JObject [(''order_id'', JInt 1), (''product_id'', JString ''script''),
                 (''quantity'', JInt 2)]) True #
     [EvLog (LogProcessed 1 ''script'')]
   \<and> fst (insert_order \<lparr>insert_error = False, publish_error = False, current_timestamp = 7\<rparr> ''script'' 2
        \<lparr>orders = [], orders_id_seq = 1, channel = [], trace = []\<rparr>) = Inr 1
   \<and> \<lparr>row_id = 1, row_product_id = ''script'',
               row_quantity = 2, row_status = ''pending'', row_created_at = 7\<rparr> \<in> set (orders (snd (buyHandler
        \<lparr>insert_error = False, publish_error = False, current_timestamp = 7\<rparr>
        \<lparr>Method = ''POST'', Body = Some (JObject [(''product_id'', JString ''<script>''), (''quantity'', JInt 2)])\<rparr>
        \<lparr>orders = [], orders_id_seq = 1, channel = [], trace = []\<rparr>)))
   \<and> char_length ''script'' \<le> 50
   \<and> set (channel (snd (buyHandler
        \<lparr>insert_error = False, publish_error = False, current_timestamp = 7\<rparr>
        \<lparr>Method = ''POST'', Body = Some (JObject [(''product_id'', JString ''<script>''), (''quantity'', JInt 2)])\<rparr>
        \<lparr>orders = [], orders_id_seq = 1, channel = [], trace = []\<rparr>))) \<subseteq>
       {(''orders'', (JObject [(''order_id'', JInt 1), (''product_id'', JString ''script''),
                 (''quantity'', JInt 2)]))}"
proof -
  have h: "trace (snd (buyHandler
        \<lparr>insert_error = False, publish_error = False, current_timestamp = 7\<rparr>
        \<lparr>Method = ''POST'', Body = Some (JObject [(''product_id'', JString ''<script>''), (''quantity'', JInt 2)])\<rparr>
        \<lparr>orders = [], orders_id_seq = 1, channel = [], trace = []\<rparr>)) =
     trace \<lparr>orders = [], orders_id_seq = 1, channel = [], trace = []\<rparr> @
     [EvInsert ''script'' 2 (Some 1)] @
     EvPublish ''orders''
       (JObject [(''order_id'', JInt 1), (''product_id'', JString ''script''),
                 (''quantity'', JInt 2)]) True #
     [EvLog (LogProcessed 1 ''script'')]"
    by code_simp
  have d: "Decode (Some (JObject [(''product_id'', JString ''<script>''), (''quantity'', JInt 2)]))
        zero_OrderRequest = (\<lparr>ProductID = ''<script>'', Quantity = 2\<rparr>, None)"
    by code_simp
  have s: "SanitizeInput ''<script>'' = ''script''"
    by (simp add: SanitizeInput_def)
  have c: "take_chars 50 ''script'' = ''script''"
    by (simp add: is_continuation_def)
  have l: "char_length ''script'' \<le> 50"
    by (simp add: char_length_def is_continuation_def)
  show ?thesis
    using publish_only_after_persist [OF h] h l
    by (simp add: d s c is_continuation_def)
qed

text \<open>
  The claim as stated fails. For the product identifier of fifty letters \<open>b\<close> and two
  blanks the message on the channel carries the identifier with its blanks, and the row
  that was persisted holds it without them.
\<close>

theorem published_id_differs_from_persisted_id:
  "channel (snd (buyHandler
        \<lparr>insert_error = False, publish_error = False, current_timestamp = 7\<rparr>
        \<lparr>Method = ''POST'', Body = Some (JObject [(''product_id'', JString (replicate 50 (CHR ''b'') @ ''  '')), (''quantity'', JInt 3)])\<rparr>
        \<lparr>orders = [], orders_id_seq = 1, channel = [], trace = []\<rparr>)) =
     [(''orders'', (JObject [(''order_id'', JInt 1), (''product_id'', JString (replicate 50 (CHR ''b'') @ ''  '')),
                 (''quantity'', JInt 3)]))]
   \<and> orders (snd (buyHandler
        \<lparr>insert_error = False, publish_error = False, current_timestamp = 7\<rparr>
        \<lparr>Method = ''POST'', Body = Some (JObject [(''product_id'', JString (replicate 50 (CHR ''b'') @ ''  '')), (''quantity'', JInt 3)])\<rparr>
        \<lparr>orders = [], orders_id_seq = 1, channel = [], trace = []\<rparr>)) =
     [\<lparr>row_id = 1, row_product_id = replicate 50 (CHR ''b''),
               row_quantity = 3, row_status = ''pending'', row_created_at = 7\<rparr>]
   \<and> replicate 50 (CHR ''b'') @ ''  '' \<noteq> replicate 50 (CHR ''b'')"
  by code_simp

lemma store_member_int_fits:
  "int_fits (Quantity (fst acc)) \<Longrightarrow> int_fits (Quantity (fst (store_member m acc)))"
  by (cases m; cases acc) (auto simp add: Let_def split: json.splits)

lemma foldl_store_member_int_fits:
  "int_fits (Quantity (fst acc)) \<Longrightarrow>
     int_fits (Quantity (fst (foldl (\<lambda>acc m. store_member m acc) acc members)))"
  by (induction members arbitrary: acc) (simp_all add: store_member_int_fits)

lemma Decode_int_fits: "int_fits (Quantity (fst (Decode body zero_OrderRequest)))"
proof -
  have z: "int_fits (Quantity (fst (zero_OrderRequest, err)))" for err :: "error option"
    by (simp add: zero_OrderRequest_def int_fits_def)
  show ?thesis
    using z foldl_store_member_int_fits [OF z [of None]]
    by (simp add: Decode_def split: option.splits json.splits)
qed

text \<open>
  Claim C9, as the code has it. The handler makes no check of the sign: for a request that
  is accepted and persisted, the quantity of the new row is the quantity decoded from the
  body, of either sign.
\<close>

theorem stored_quantity_is_submitted_quantity:
  assumes "Method r = ''POST''"
    and "Decode (Body r) zero_OrderRequest = (req, None)"
    and "fst (insert_order e (SanitizeInput (ProductID req)) (Quantity req) w) = Inr orderID"
  shows "orders (snd (buyHandler e r w)) =
           orders w @ [\<lparr>row_id = orderID, row_product_id = take_chars 50 (SanitizeInput (ProductID req)),
                        row_quantity = Quantity req, row_status = ''pending'',
                        row_created_at = current_timestamp e\<rparr>]
       \<and> row_quantity (last (orders (snd (buyHandler e r w)))) = Quantity req
       \<and> - (2 ^ 63) \<le> Quantity req \<and> Quantity req < 2 ^ 63
       \<and> - (2 ^ 31) \<le> Quantity req \<and> Quantity req < 2 ^ 31"
proof -
  obtain w1 where ins: "insert_order e (SanitizeInput (ProductID req)) (Quantity req) w = (Inr orderID, w1)"
    using assms(3) by (cases "insert_order e (SanitizeInput (ProductID req)) (Quantity req) w") auto
  have "int_fits (Quantity req)"
    using Decode_int_fits [of "Body r"] assms(2) by simp
  then show ?thesis
    using insert_order_Inr [OF ins]
    by (simp add: buyHandler_inserted [OF assms(1,2) ins] log_Printf_def int_fits_def int4_fits_def)
qed

theorem stored_quantity_is_submitted_quantity_witness:
  "Method \<lparr>Method = ''POST'', Body = Some (JObject [(''product_id'', JString ''book''), (''quantity'', JInt (- 1))])\<rparr> = ''POST''
   \<and> Decode (Body \<lparr>Method = ''POST'', Body = Some (JObject [(''product_id'', JString ''book''), (''quantity'', JInt (- 1))])\<rparr>)
        zero_OrderRequest = (\<lparr>ProductID = ''book'', Quantity = - 1\<rparr>, None)
   \<and> fst (insert_order \<lparr>insert_error = False, publish_error = False, current_timestamp = 7\<rparr>
        (SanitizeInput (ProductID \<lparr>ProductID = ''book'', Quantity = - 1\<rparr>))
        (Quantity \<lparr>ProductID = ''book'', Quantity = - 1\<rparr>)
        \<lparr>orders = [], orders_id_seq = 1, channel = [], trace = []\<rparr>) = Inr 1
   \<and> row_quantity (last (orders (snd (buyHandler
        \<lparr>insert_error = False, publish_error = False, current_timestamp = 7\<rparr>
        \<lparr>Method = ''POST'', Body = Some (JObject [(''product_id'', JString ''book''), (''quantity'', JInt (- 1))])\<rparr>
        \<lparr>orders = [], orders_id_seq = 1, channel = [], trace = []\<rparr>)))) = - 1"
proof -
  have h1: "Method \<lparr>Method = ''POST'', Body = Some (JObject [(''product_id'', JString ''book''), (''quantity'', JInt (- 1))])\<rparr> = ''POST''"
    by simp
  have h2: "Decode (Body \<lparr>Method = ''POST'', Body = Some (JObject [(''product_id'', JString ''book''), (''quantity'', JInt (- 1))])\<rparr>)
        zero_OrderRequest = (\<lparr>ProductID = ''book'', Quantity = - 1\<rparr>, None)"
    by code_simp
  have h3: "fst (insert_order \<lparr>insert_error = False, publish_error = False, current_timestamp = 7\<rparr>
        (SanitizeInput (ProductID \<lparr>ProductID = ''book'', Quantity = - 1\<rparr>))
        (Quantity \<lparr>ProductID = ''book'', Quantity = - 1\<rparr>)
        \<lparr>orders = [], orders_id_seq = 1, channel = [], trace = []\<rparr>) = Inr 1"
    by code_simp
  show ?thesis
    using stored_quantity_is_submitted_quantity [OF h1 h2 h3] h1 h2 h3 by simp
qed

text \<open>
  The claim as stated fails: the body \<open>{"product_id": "book", "quantity": -1}\<close> is
  answered 200 and its row has the quantity \<open>-1\<close>.
\<close>

theorem negative_quantity_is_stored:
  "StatusCode (fst (buyHandler
        \<lparr>insert_error = False, publish_error = False, current_timestamp = 7\<rparr>
        \<lparr>Method = ''POST'', Body = Some (JObject [(''product_id'', JString ''book''), (''quantity'', JInt (- 1))])\<rparr>
        \<lparr>orders = [], orders_id_seq = 1, channel = [], trace = []\<rparr>)) = 200
   \<and> orders (snd (buyHandler
        \<lparr>insert_error = False, publish_error = False, current_timestamp = 7\<rparr>
        \<lparr>Method = ''POST'', Body = Some (JObject [(''product_id'', JString ''book''), (''quantity'', JInt (- 1))])\<rparr>
        \<lparr>orders = [], orders_id_seq = 1, channel = [], trace = []\<rparr>)) =
       [\<lparr>row_id = 1, row_product_id = ''book'', row_quantity = - 1, row_status = ''pending'',
         row_created_at = 7\<rparr>]
   \<and> \<not> 0 \<le> row_quantity (last (orders (snd (buyHandler
        \<lparr>insert_error = False, publish_error = False, current_timestamp = 7\<rparr>
        \<lparr>Method = ''POST'', Body = Some (JObject [(''product_id'', JString ''book''), (''quantity'', JInt (- 1))])\<rparr>
        \<lparr>orders = [], orders_id_seq = 1, channel = [], trace = []\<rparr>))))"
  by code_simp

lemma store_member_accepts:
  "snd (store_member m acc) = None \<longleftrightarrow> snd acc = None \<and> accepted_member m"
  by (cases m; cases acc) (auto simp add: Let_def split: json.splits option.splits)

lemma foldl_store_member_accepts:
  "snd (foldl (\<lambda>acc m. store_member m acc) acc members) = None
     \<longleftrightarrow> snd acc = None \<and> list_all accepted_member members"
  by (induction members arbitrary: acc) (auto simp add: store_member_accepts)

lemma store_member_ProductID:
  "\<not> fold_eq (fst m) ''product_id'' \<Longrightarrow> ProductID (fst (store_member m acc)) = ProductID (fst acc)"
  by (cases m; cases acc) (auto simp add: Let_def split: json.splits)

lemma foldl_store_member_ProductID:
  "list_all (\<lambda>m. \<not> fold_eq (fst m) ''product_id'') members \<Longrightarrow>
     ProductID (fst (foldl (\<lambda>acc m. store_member m acc) acc members)) = ProductID (fst acc)"
  by (induction members arbitrary: acc) (simp_all add: store_member_ProductID)

lemma store_member_Quantity:
  "\<not> fold_eq (fst m) ''quantity'' \<Longrightarrow> Quantity (fst (store_member m acc)) = Quantity (fst acc)"
  by (cases m; cases acc) (auto simp add: Let_def split: json.splits)

lemma foldl_store_member_Quantity:
  "list_all (\<lambda>m. \<not> fold_eq (fst m) ''quantity'') members \<Longrightarrow>
     Quantity (fst (foldl (\<lambda>acc m. store_member m acc) acc members)) = Quantity (fst acc)"
  by (induction members arbitrary: acc) (simp_all add: store_member_Quantity)

lemma SanitizeInput_Nil: "SanitizeInput [] = []"
  by (simp add: SanitizeInput_def)

lemma nesting_nested_arrays: "nesting (((\<lambda>v. JArray [v]) ^^ n) JNull) = n"
  by (induction n) simp_all

lemma deep_body_is_rejected:
  assumes "Method r = ''POST''" and "Body r = Some v" and "10000 < nesting v"
  shows "buyHandler e r w = (http_Error ''Invalid request body'' 400, w)"
  using assms by (simp add: buyHandler_def Decode_def maxNestingDepth_def)

text \<open>
  Claim C10, as the code has it. A \<open>POST\<close> whose body is a JSON object, nested no deeper
  than the 10000 levels the decoder scans, in which every member that names
  \<open>product_id\<close> holds a string or \<open>null\<close>, and every member that names \<open>quantity\<close> an
  integer literal of the \<open>int\<close> range or \<open>null\<close>, is not rejected: a field that no
  member names keeps its zero value (the empty string, 0), the insert is attempted with
  the decoded values, and when it succeeds the answer is 200 with the order identifier of
  the new row.
\<close>

theorem omitted_fields_take_zero_values:
  assumes "Method r = ''POST''"
    and "Body r = Some (JObject members)"
    and "nesting (JObject members) \<le> 10000"
    and "list_all accepted_member members"
  shows "\<exists>req. Decode (Body r) zero_OrderRequest = (req, None)
       \<and> (list_all (\<lambda>m. \<not> fold_eq (fst m) ''product_id'') members \<longrightarrow>
            ProductID req = [] \<and> SanitizeInput (ProductID req) = []
            \<and> take_chars 50 (SanitizeInput (ProductID req)) = [])
       \<and> (list_all (\<lambda>m. \<not> fold_eq (fst m) ''quantity'') members \<longrightarrow> Quantity req = 0)
       \<and> StatusCode (fst (buyHandler e r w)) \<noteq> 400
       \<and> (\<exists>res rest. trace (snd (buyHandler e r w)) =
             trace w @ EvInsert (SanitizeInput (ProductID req)) (Quantity req) res # rest)
       \<and> (\<forall>orderID. fst (insert_order e (SanitizeInput (ProductID req)) (Quantity req) w) = Inr orderID \<longrightarrow>
             fst (buyHandler e r w) =
               \<lparr>StatusCode = 200, ContentType = ''application/json'',
                 Payload = Json (JObject [(''order_id'', JInt orderID), (''product_id'', JString (SanitizeInput (ProductID req))),
                 (''status'', JString ''Order processed'')])\<rparr>
           \<and> orders (snd (buyHandler e r w)) =
               orders w @ [\<lparr>row_id = orderID, row_product_id = take_chars 50 (SanitizeInput (ProductID req)),
               row_quantity = Quantity req, row_status = ''pending'', row_created_at = current_timestamp e\<rparr>])"
proof -
  obtain req err where dec: "Decode (Body r) zero_OrderRequest = (req, err)"
    by (cases "Decode (Body r) zero_OrderRequest") auto
  have fold: "foldl (\<lambda>acc m. store_member m acc) (zero_OrderRequest, None) members = (req, err)"
    using dec assms(2,3) by (simp add: Decode_def maxNestingDepth_def)
  have "err = None"
    using foldl_store_member_accepts [of "(zero_OrderRequest, None)" members] assms(4) fold by simp
  with dec have dec: "Decode (Body r) zero_OrderRequest = (req, None)" by simp
  have pid: "ProductID req = [] \<and> SanitizeInput (ProductID req) = []
      \<and> take_chars 50 (SanitizeInput (ProductID req)) = []"
    if "list_all (\<lambda>m. \<not> fold_eq (fst m) ''product_id'') members"
    using foldl_store_member_ProductID [OF that, of "(zero_OrderRequest, None)"] fold
    by (simp add: zero_OrderRequest_def SanitizeInput_Nil)
  have qty: "Quantity req = 0"
    if "list_all (\<lambda>m. \<not> fold_eq (fst m) ''quantity'') members"
    using foldl_store_member_Quantity [OF that, of "(zero_OrderRequest, None)"] fold
    by (simp add: zero_OrderRequest_def)
  obtain res w1 where ins: "insert_order e (SanitizeInput (ProductID req)) (Quantity req) w = (res, w1)"
    by (cases "insert_order e (SanitizeInput (ProductID req)) (Quantity req) w") auto
  have rest: "StatusCode (fst (buyHandler e r w)) \<noteq> 400
       \<and> (\<exists>res rest. trace (snd (buyHandler e r w)) =
             trace w @ EvInsert (SanitizeInput (ProductID req)) (Quantity req) res # rest)
       \<and> (\<forall>orderID. fst (insert_order e (SanitizeInput (ProductID req)) (Quantity req) w) = Inr orderID \<longrightarrow>
             fst (buyHandler e r w) =
               \<lparr>StatusCode = 200, ContentType = ''application/json'',
                 Payload = Json (JObject [(''order_id'', JInt orderID), (''product_id'', JString (SanitizeInput (ProductID req))),
                 (''status'', JString ''Order processed'')])\<rparr>
           \<and> orders (snd (buyHandler e r w)) =
               orders w @ [\<lparr>row_id = orderID, row_product_id = take_chars 50 (SanitizeInput (ProductID req)),
               row_quantity = Quantity req, row_status = ''pending'', row_created_at = current_timestamp e\<rparr>])"
  proof (cases res)
    case (Inl a)
    with ins have ins: "insert_order e (SanitizeInput (ProductID req)) (Quantity req) w = (Inl a, w1)"
      by simp
    show ?thesis
      using insert_order_Inl [OF ins] ins
      by (simp add: buyHandler_insert_failed [OF assms(1) dec ins] log_Printf_def http_Error_def)
  next
    case (Inr oid)
    with ins have ins: "insert_order e (SanitizeInput (ProductID req)) (Quantity req) w = (Inr oid, w1)"
      by simp
    show ?thesis
      using insert_order_Inr [OF ins] ins
      by (simp add: buyHandler_inserted [OF assms(1) dec ins] log_Printf_def okBody_def)
  qed
  show ?thesis
    using dec pid qty rest by blast
qed

theorem omitted_fields_take_zero_values_witness:
  "Method \<lparr>Method = ''POST'', Body = Some (JObject [])\<rparr> = ''POST''
   \<and> Body \<lparr>Method = ''POST'', Body = Some (JObject [])\<rparr> = Some (JObject [])
   \<and> nesting (JObject []) \<le> 10000
   \<and> list_all accepted_member []
   \<and> list_all (\<lambda>m. \<not> fold_eq (fst m) ''product_id'') ([] :: (string \<times> json) list)
   \<and> list_all (\<lambda>m. \<not> fold_eq (fst m) ''quantity'') ([] :: (string \<times> json) list)
   \<and> fst (insert_order \<lparr>insert_error = False, publish_error = False, current_timestamp = 7\<rparr> [] 0
        \<lparr>orders = [], orders_id_seq = 1, channel = [], trace = []\<rparr>) = Inr 1
   \<and> fst (buyHandler
        \<lparr>insert_error = False, publish_error = False, current_timestamp = 7\<rparr>
        \<lparr>Method = ''POST'', Body = Some (JObject [])\<rparr>
        \<lparr>orders = [], orders_id_seq = 1, channel = [], trace = []\<rparr>) =
       \<lparr>StatusCode = 200, ContentType = ''application/json'',
         Payload = Json (JObject [(''order_id'', JInt 1), (''product_id'', JString []),
                 (''status'', JString ''Order processed'')])\<rparr>
   \<and> orders (snd (buyHandler
        \<lparr>insert_error = False, publish_error = False, current_timestamp = 7\<rparr>
        \<lparr>Method = ''POST'', Body = Some (JObject [])\<rparr>
        \<lparr>orders = [], orders_id_seq = 1, channel = [], trace = []\<rparr>)) =
       [\<lparr>row_id = 1, row_product_id = [], row_quantity = 0, row_status = ''pending'',
         row_created_at = 7\<rparr>]
   \<and> Method \<lparr>Method = ''POST'', Body = Some (JObject [(''Quantity'', JInt 3), (''note'', JArray [JInt 1])])\<rparr> = ''POST''
   \<and> nesting (JObject [(''Quantity'', JInt 3), (''note'', JArray [JInt 1])]) \<le> 10000
   \<and> list_all accepted_member [(''Quantity'', JInt 3), (''note'', JArray [JInt 1])]
   \<and> list_all (\<lambda>m. \<not> fold_eq (fst m) ''product_id'') [(''Quantity'', JInt 3), (''note'', JArray [JInt 1])]
   \<and> fst (insert_order \<lparr>insert_error = False, publish_error = False, current_timestamp = 7\<rparr> [] 3
        \<lparr>orders = [], orders_id_seq = 1, channel = [], trace = []\<rparr>) = Inr 1
   \<and> orders (snd (buyHandler
        \<lparr>insert_error = False, publish_error = False, current_timestamp = 7\<rparr>
        \<lparr>Method = ''POST'', Body = Some (JObject [(''Quantity'', JInt 3), (''note'', JArray [JInt 1])])\<rparr>
        \<lparr>orders = [], orders_id_seq = 1, channel = [], trace = []\<rparr>)) =
       [\<lparr>row_id = 1, row_product_id = [], row_quantity = 3, row_status = ''pending'',
         row_created_at = 7\<rparr>]"
proof -
  have h1: "Method \<lparr>Method = ''POST'', Body = Some (JObject [])\<rparr> = ''POST''"
    by simp
  have h2: "Body \<lparr>Method = ''POST'', Body = Some (JObject [])\<rparr> = Some (JObject [])"
    by simp
  have h3: "nesting (JObject []) \<le> 10000"
    by simp
  have h4: "list_all accepted_member []"
    by simp
  have i: "fst (insert_order \<lparr>insert_error = False, publish_error = False, current_timestamp = 7\<rparr> [] 0
        \<lparr>orders = [], orders_id_seq = 1, channel = [], trace = []\<rparr>) = Inr 1"
    by code_simp
  have k1: "Method \<lparr>Method = ''POST'', Body = Some (JObject [(''Quantity'', JInt 3), (''note'', JArray [JInt 1])])\<rparr> = ''POST''"
    by simp
  have k2: "Body \<lparr>Method = ''POST'', Body = Some (JObject [(''Quantity'', JInt 3), (''note'', JArray [JInt 1])])\<rparr> = Some (JObject [(''Quantity'', JInt 3), (''note'', JArray [JInt 1])])"
    by simp
  have k3: "nesting (JObject [(''Quantity'', JInt 3), (''note'', JArray [JInt 1])]) \<le> 10000"
    by simp
  have k4: "list_all accepted_member [(''Quantity'', JInt 3), (''note'', JArray [JInt 1])]"
    by code_simp
  have k5: "list_all (\<lambda>m. \<not> fold_eq (fst m) ''product_id'') [(''Quantity'', JInt 3), (''note'', JArray [JInt 1])]"
    by code_simp
  have d: "Decode (Body \<lparr>Method = ''POST'', Body = Some (JObject [(''Quantity'', JInt 3), (''note'', JArray [JInt 1])])\<rparr>) zero_OrderRequest = (\<lparr>ProductID = [], Quantity = 3\<rparr>, None)"
    by code_simp
  have j: "fst (insert_order \<lparr>insert_error = False, publish_error = False, current_timestamp = 7\<rparr> [] 3
        \<lparr>orders = [], orders_id_seq = 1, channel = [], trace = []\<rparr>) = Inr 1"
    by code_simp
  have a: "fst (buyHandler
        \<lparr>insert_error = False, publish_error = False, current_timestamp = 7\<rparr>
        \<lparr>Method = ''POST'', Body = Some (JObject [])\<rparr>
        \<lparr>orders = [], orders_id_seq = 1, channel = [], trace = []\<rparr>) =
       \<lparr>StatusCode = 200, ContentType = ''application/json'',
         Payload = Json (JObject [(''order_id'', JInt 1), (''product_id'', JString []),
                 (''status'', JString ''Order processed'')])\<rparr>
   \<and> orders (snd (buyHandler
        \<lparr>insert_error = False, publish_error = False, current_timestamp = 7\<rparr>
        \<lparr>Method = ''POST'', Body = Some (JObject [])\<rparr>
        \<lparr>orders = [], orders_id_seq = 1, channel = [], trace = []\<rparr>)) =
       [\<lparr>row_id = 1, row_product_id = [], row_quantity = 0, row_status = ''pending'',
         row_created_at = 7\<rparr>]"
    using omitted_fields_take_zero_values [OF h1 h2 h3 h4,
      of "\<lparr>insert_error = False, publish_error = False, current_timestamp = 7\<rparr>"
         "\<lparr>orders = [], orders_id_seq = 1, channel = [], trace = []\<rparr>"] i
    by (auto simp add: zero_OrderRequest_def)
  have b: "orders (snd (buyHandler
        \<lparr>insert_error = False, publish_error = False, current_timestamp = 7\<rparr>
        \<lparr>Method = ''POST'', Body = Some (JObject [(''Quantity'', JInt 3), (''note'', JArray [JInt 1])])\<rparr>
        \<lparr>orders = [], orders_id_seq = 1, channel = [], trace = []\<rparr>)) =
       [\<lparr>row_id = 1, row_product_id = [], row_quantity = 3, row_status = ''pending'',
         row_created_at = 7\<rparr>]"
    using omitted_fields_take_zero_values [OF k1 k2 k3 k4,
      of "\<lparr>insert_error = False, publish_error = False, current_timestamp = 7\<rparr>"
         "\<lparr>orders = [], orders_id_seq = 1, channel = [], trace = []\<rparr>"] k5 j d
    by auto
  show ?thesis
    using h1 h2 h3 h4 i a k1 k3 k4 k5 j b by simp
qed

text \<open>
  The claim as stated fails: the body \<open>{"quantity": "two"}\<close> is valid JSON and omits
  \<open>product_id\<close>, and the handler rejects it with 400, the world unchanged.
\<close>

theorem ill_typed_member_is_rejected:
  "list_all (\<lambda>m. \<not> fold_eq (fst m) ''product_id'') [(''quantity'', JString ''two'')]
   \<and> buyHandler
        \<lparr>insert_error = False, publish_error = False, current_timestamp = 7\<rparr>
        \<lparr>Method = ''POST'', Body = Some (JObject [(''quantity'', JString ''two'')])\<rparr>
        \<lparr>orders = [], orders_id_seq = 1, channel = [], trace = []\<rparr> =
      (\<lparr>StatusCode = 400, ContentType = ''text/plain; charset=utf-8'',
        Payload = Text (''Invalid request body'' @ [CHR 0x0A])\<rparr>,
       \<lparr>orders = [], orders_id_seq = 1, channel = [], trace = []\<rparr>)"
  by code_simp

section \<open>Properties of startup\<close>

lemma emit_emit: "emit b (emit a s) = emit (a @ b) s"
  by (simp add: emit_def)

lemma emit_Nil: "emit [] s = s"
  by (simp add: emit_def)

lemma initDB_loop_done: "\<not> i < 10 \<Longrightarrow> initDB_loop env i err s = (err, s)"
  by simp

lemma initDB_loop_connects:
  "i < 10 \<Longrightarrow> connects env i \<Longrightarrow>
     initDB_loop env i err s = (None, emit [SqlOpen, DbPing, LogPrint ''Connected to Database''] s)"
  by (simp add: connects_def emit_emit)

lemma initDB_loop_retry:
  "i < 10 \<Longrightarrow> \<not> connects env i \<Longrightarrow>
     \<exists>e. initDB_loop env i err s = initDB_loop env (Suc i) (Some e) (emit (failed_attempt env i) s)"
  by (cases "sql_Open env i"; cases "db_Ping env i")
     (simp_all add: connects_def emit_emit failed_attempt_def)

declare initDB_loop.simps [simp del]

lemma initDB_loop_events:
  "10 - i = k \<Longrightarrow>
     snd (initDB_loop env i err s) =
       emit (case List.find (connects env) [i..<10] of
               None \<Rightarrow> concat (map (failed_attempt env) [i..<10])
             | Some n \<Rightarrow> concat (map (failed_attempt env) [i..<n]) @
                          [SqlOpen, DbPing, LogPrint ''Connected to Database'']) s"
proof (induction k arbitrary: i err s)
  case 0
  then show ?case by (simp add: initDB_loop_done emit_Nil)
next
  case (Suc k)
  then have i: "i < 10" and k: "10 - Suc i = k" by simp_all
  show ?case
  proof (cases "connects env i")
    case True
    then show ?thesis using i by (simp add: initDB_loop_connects upt_conv_Cons)
  next
    case False
    from initDB_loop_retry [OF i False, of err s] obtain e where
      "initDB_loop env i err s = initDB_loop env (Suc i) (Some e) (emit (failed_attempt env i) s)" ..
    then have step: "snd (initDB_loop env i err s) =
        emit (failed_attempt env i @
              (case List.find (connects env) [Suc i..<10] of
                 None \<Rightarrow> concat (map (failed_attempt env) [Suc i..<10])
               | Some n \<Rightarrow> concat (map (failed_attempt env) [Suc i..<n]) @
                            [SqlOpen, DbPing, LogPrint ''Connected to Database''])) s"
      using Suc.IH [OF k, of "Some e" "emit (failed_attempt env i) s"] by (simp add: emit_emit)
    show ?thesis
    proof (cases "List.find (connects env) [Suc i..<10]")
      case None
      then show ?thesis using step i False by (simp add: upt_conv_Cons [of i 10])
    next
      case (Some n)
      then have "i < n" by (auto simp add: find_Some_iff)
      then show ?thesis using step i False Some
        by (simp add: upt_conv_Cons [of i 10] upt_conv_Cons [of i n])
    qed
  qed
qed

lemma initDB_loop_err:
  "10 - i = k \<Longrightarrow> i < 10 \<or> err \<noteq> None \<Longrightarrow>
     (fst (initDB_loop env i err s) = None) = (List.find (connects env) [i..<10] \<noteq> None)"
proof (induction k arbitrary: i err s)
  case 0
  then show ?case by (simp add: initDB_loop_done)
next
  case (Suc k)
  then have i: "i < 10" and k: "10 - Suc i = k" by simp_all
  show ?case
  proof (cases "connects env i")
    case True
    then show ?thesis using i by (simp add: initDB_loop_connects upt_conv_Cons)
  next
    case False
    from initDB_loop_retry [OF i False, of err s] obtain e where
      "initDB_loop env i err s = initDB_loop env (Suc i) (Some e) (emit (failed_attempt env i) s)" ..
    then show ?thesis
      using Suc.IH [OF k, of "Some e" "emit (failed_attempt env i) s"] i False
      by (simp add: upt_conv_Cons [of i 10])
  qed
qed

lemma main_startup_spec: "main env s = startup_spec env s"
proof -
  obtain err s1 where loop: "initDB_loop env 0 None s = (err, s1)"
    by (cases "initDB_loop env 0 None s") auto
  have ev: "s1 = emit (case List.find (connects env) [0..<10] of
               None \<Rightarrow> concat (map (failed_attempt env) [0..<10])
             | Some n \<Rightarrow> concat (map (failed_attempt env) [0..<n]) @
                          [SqlOpen, DbPing, LogPrint ''Connected to Database'']) s"
    using initDB_loop_events [of 0 10 env None s] loop by simp
  have er: "(err = None) = (List.find (connects env) [0..<10] \<noteq> None)"
    using initDB_loop_err [of 0 10 None env s] loop by simp
  show ?thesis
  proof (cases "List.find (connects env) [0..<10]")
    case None
    then show ?thesis
      using ev er loop
      by (auto simp add: main_def initDB_def startup_spec_def emit_def)
  next
    case (Some n)
    then show ?thesis
      using ev er loop
      by (auto simp add: main_def initDB_def initRedis_def startup_spec_def Let_def emit_def
            create_table_if_not_exists_def split: option.splits)
  qed
qed

lemma count_SqlOpen_failed_attempts:
  "length (filter (\<lambda>ev. ev = SqlOpen) (concat (map (failed_attempt env) [0..<n]))) = n"
  by (induction n) (simp_all add: failed_attempt_def)

lemma count_RedisPing_failed_attempts:
  "filter (\<lambda>ev. ev = RedisPing) (concat (map (failed_attempt env) [0..<n])) = []"
  by (induction n) (simp_all add: failed_attempt_def)

lemma find_connects_less: "List.find (connects env) [0..<10] = Some n \<Longrightarrow> n < 10"
  by (auto simp add: find_Some_iff)

text \<open>
  Claim C6. Startup is the sequence the specification words: \<open>main\<close> equals
  \<open>startup_spec\<close>, in which the attempts to open and ping the store stop at the first
  one that connects, the table is then created, and the channel is pinged. The store is
  opened at most ten times; a failed attempt starts with the open and ends with the wait
  of two, so a wait lies between any two attempts. Creating the table makes an absent
  table an empty one and leaves a table that is there with its rows, so creating it twice
  is creating it once; after \<open>initDB\<close> went through, and whenever the process serves,
  the table is there. \<open>initRedis\<close> pings the channel exactly once, and \<open>main\<close> at most
  once (not at all when the store fails). When no attempt connects, the table cannot be
  created, or the ping of the channel fails, the process exits without a call of
  \<open>http.ListenAndServe\<close>.
\<close>

theorem startup_sequence:
  "main env s = startup_spec env s
   \<and> length (filter (\<lambda>ev. ev = SqlOpen) (events (snd (main env s))))
        \<le> length (filter (\<lambda>ev. ev = SqlOpen) (events s)) + 10
   \<and> length (filter (\<lambda>ev. ev = RedisPing) (events (snd (initRedis env s))))
        = length (filter (\<lambda>ev. ev = RedisPing) (events s)) + 1
   \<and> length (filter (\<lambda>ev. ev = RedisPing) (events (snd (main env s))))
        \<le> length (filter (\<lambda>ev. ev = RedisPing) (events s)) + 1
   \<and> hd (failed_attempt env i) = SqlOpen \<and> last (failed_attempt env i) = Sleep 2
   \<and> length (filter (\<lambda>ev. ev = SqlOpen) (failed_attempt env i)) = 1
   \<and> create_table_if_not_exists (create_table_if_not_exists t) = create_table_if_not_exists t
   \<and> create_table_if_not_exists t = Some (case t of None \<Rightarrow> [] | Some rows \<Rightarrow> rows)
   \<and> (fst (initDB env s) = Running \<longrightarrow>
        orders_table (snd (initDB env s)) = Some (case orders_table s of None \<Rightarrow> [] | Some rows \<Rightarrow> rows))
   \<and> (fst (main env s) = Serving \<longrightarrow>
        orders_table (snd (main env s)) = Some (case orders_table s of None \<Rightarrow> [] | Some rows \<Rightarrow> rows))
   \<and> (List.find (connects env) [0..<10] = None \<or> db_Exec env \<noteq> None \<or> rdb_Ping env \<noteq> None \<longrightarrow>
        fst (main env s) = Exited
        \<and> (\<forall>port. ListenAndServe port \<in> set (events (snd (main env s))) \<longrightarrow>
                    ListenAndServe port \<in> set (events s)))"
proof -
  have spec: "main env s = startup_spec env s"
    by (rule main_startup_spec)
  have attempts: "length (filter (\<lambda>ev. ev = SqlOpen) (events (snd (startup_spec env s))))
        \<le> length (filter (\<lambda>ev. ev = SqlOpen) (events s)) + 10"
  proof (cases "List.find (connects env) [0..<10]")
    case None
    then show ?thesis
      by (simp add: startup_spec_def count_SqlOpen_failed_attempts)
  next
    case (Some n)
    then show ?thesis
      using find_connects_less [OF Some]
      by (simp add: startup_spec_def Let_def count_SqlOpen_failed_attempts)
  qed
  have one_ping: "length (filter (\<lambda>ev. ev = RedisPing) (events (snd (initRedis env s))))
        = length (filter (\<lambda>ev. ev = RedisPing) (events s)) + 1"
    by (simp add: initRedis_def emit_def Let_def)
  have pings: "length (filter (\<lambda>ev. ev = RedisPing) (events (snd (startup_spec env s))))
        \<le> length (filter (\<lambda>ev. ev = RedisPing) (events s)) + 1"
    by (cases "List.find (connects env) [0..<10]")
       (simp_all add: startup_spec_def Let_def count_RedisPing_failed_attempts)
  have wait: "hd (failed_attempt env i) = SqlOpen \<and> last (failed_attempt env i) = Sleep 2
      \<and> length (filter (\<lambda>ev. ev = SqlOpen) (failed_attempt env i)) = 1"
    by (simp add: failed_attempt_def)
  have idem: "create_table_if_not_exists (create_table_if_not_exists t) = create_table_if_not_exists t"
    by (cases t) (simp_all add: create_table_if_not_exists_def)
  have created: "create_table_if_not_exists t = Some (case t of None \<Rightarrow> [] | Some rows \<Rightarrow> rows)"
    by (cases t) (simp_all add: create_table_if_not_exists_def)
  have table_db: "orders_table (snd (initDB env s)) = Some (case orders_table s of None \<Rightarrow> [] | Some rows \<Rightarrow> rows)"
    if "fst (initDB env s) = Running"
  proof -
    obtain err s1 where loop: "initDB_loop env 0 None s = (err, s1)"
      by (cases "initDB_loop env 0 None s") auto
    have "orders_table s1 = orders_table s"
      using initDB_loop_events [of 0 10 env None s] loop by (simp add: emit_def)
    then show ?thesis
      using that loop
      by (cases "orders_table s")
         (auto simp add: initDB_def Let_def emit_def create_table_if_not_exists_def
            split: if_splits)
  qed
  have table: "orders_table (snd (startup_spec env s)) = Some (case orders_table s of None \<Rightarrow> [] | Some rows \<Rightarrow> rows)"
    if "fst (startup_spec env s) = Serving"
    using that
    by (cases "List.find (connects env) [0..<10]"; cases "orders_table s")
       (auto simp add: startup_spec_def Let_def split: if_splits)
  have fatal: "fst (startup_spec env s) = Exited
        \<and> (\<forall>port. ListenAndServe port \<in> set (events (snd (startup_spec env s))) \<longrightarrow>
                    ListenAndServe port \<in> set (events s))"
    if "List.find (connects env) [0..<10] = None \<or> db_Exec env \<noteq> None \<or> rdb_Ping env \<noteq> None"
    using that
    by (cases "List.find (connects env) [0..<10]")
       (auto simp add: startup_spec_def Let_def failed_attempt_def)
  show ?thesis
    using attempts one_ping pings wait idem created table_db table fatal unfolding spec by blast
qed

theorem startup_sequence_witness:
  "(List.find (connects \<lparr>PORT = [], sql_Open = (\<lambda>i. None),
        db_Ping = (\<lambda>i. if i < 2 then Some DBError else None),
        db_Exec = None, rdb_Ping = Some RedisError, http_ListenAndServe = None\<rparr>) [0..<10] = None
     \<or> db_Exec \<lparr>PORT = [], sql_Open = (\<lambda>i. None),
        db_Ping = (\<lambda>i. if i < 2 then Some DBError else None),
        db_Exec = None, rdb_Ping = Some RedisError, http_ListenAndServe = None\<rparr> \<noteq> None
     \<or> rdb_Ping \<lparr>PORT = [], sql_Open = (\<lambda>i. None),
        db_Ping = (\<lambda>i. if i < 2 then Some DBError else None),
        db_Exec = None, rdb_Ping = Some RedisError, http_ListenAndServe = None\<rparr> \<noteq> None)
   \<and> fst (main \<lparr>PORT = [], sql_Open = (\<lambda>i. None),
        db_Ping = (\<lambda>i. if i < 2 then Some DBError else None),
        db_Exec = None, rdb_Ping = Some RedisError, http_ListenAndServe = None\<rparr>
        \<lparr>events = [], orders_table = None\<rparr>) = Exited
   \<and> events (snd (main \<lparr>PORT = [], sql_Open = (\<lambda>i. None),
        db_Ping = (\<lambda>i. if i < 2 then Some DBError else None),
        db_Exec = None, rdb_Ping = Some RedisError, http_ListenAndServe = None\<rparr>
        \<lparr>events = [], orders_table = None\<rparr>)) =
       [SqlOpen, DbPing, LogPrint ''Failed to connect to DB, retrying... (%v)'', Sleep 2,
        SqlOpen, DbPing, LogPrint ''Failed to connect to DB, retrying... (%v)'', Sleep 2,
        SqlOpen, DbPing, LogPrint ''Connected to Database'', ExecCreateTable,
        RedisPing, LogFatalf ''Could not connect to Redis: %v'']
   \<and> (List.find (connects \<lparr>PORT = [], sql_Open = (\<lambda>i. Some DBError), db_Ping = (\<lambda>i. None),
        db_Exec = None, rdb_Ping = None, http_ListenAndServe = None\<rparr>) [0..<10] = None
     \<or> db_Exec \<lparr>PORT = [], sql_Open = (\<lambda>i. Some DBError), db_Ping = (\<lambda>i. None),
        db_Exec = None, rdb_Ping = None, http_ListenAndServe = None\<rparr> \<noteq> None
     \<or> rdb_Ping \<lparr>PORT = [], sql_Open = (\<lambda>i. Some DBError), db_Ping = (\<lambda>i. None),
        db_Exec = None, rdb_Ping = None, http_ListenAndServe = None\<rparr> \<noteq> None)
   \<and> fst (main \<lparr>PORT = [], sql_Open = (\<lambda>i. Some DBError), db_Ping = (\<lambda>i. None),
        db_Exec = None, rdb_Ping = None, http_ListenAndServe = None\<rparr>
        \<lparr>events = [], orders_table = None\<rparr>) = Exited
   \<and> length (filter (\<lambda>ev. ev = SqlOpen) (events (snd (main \<lparr>PORT = [], sql_Open = (\<lambda>i. Some DBError), db_Ping = (\<lambda>i. None),
        db_Exec = None, rdb_Ping = None, http_ListenAndServe = None\<rparr>
        \<lparr>events = [], orders_table = None\<rparr>)))) = 10
   \<and> RedisPing \<notin> set (events (snd (main \<lparr>PORT = [], sql_Open = (\<lambda>i. Some DBError), db_Ping = (\<lambda>i. None),
        db_Exec = None, rdb_Ping = None, http_ListenAndServe = None\<rparr>
        \<lparr>events = [], orders_table = None\<rparr>)))
   \<and> fst (main \<lparr>PORT = [], sql_Open = (\<lambda>i. None), db_Ping = (\<lambda>i. None),
        db_Exec = None, rdb_Ping = None, http_ListenAndServe = None\<rparr>
        \<lparr>events = [], orders_table = None\<rparr>) = Serving
   \<and> orders_table (snd (main \<lparr>PORT = [], sql_Open = (\<lambda>i. None), db_Ping = (\<lambda>i. None),
        db_Exec = None, rdb_Ping = None, http_ListenAndServe = None\<rparr>
        \<lparr>events = [], orders_table = None\<rparr>)) = Some []
   \<and> events (snd (main \<lparr>PORT = [], sql_Open = (\<lambda>i. None), db_Ping = (\<lambda>i. None),
        db_Exec = None, rdb_Ping = None, http_ListenAndServe = None\<rparr>
        \<lparr>events = [], orders_table = None\<rparr>)) =
       [SqlOpen, DbPing, LogPrint ''Connected to Database'', ExecCreateTable,
        RedisPing, LogPrint ''Connected to Redis'', HandleFunc ''/health'', HandleFunc ''/buy'',
        LogPrint ''Store API (Secure) starting on port 8080...'', ListenAndServe '':8080'']"
proof -
  have h1: "(List.find (connects \<lparr>PORT = [], sql_Open = (\<lambda>i. None),
        db_Ping = (\<lambda>i. if i < 2 then Some DBError else None),
        db_Exec = None, rdb_Ping = Some RedisError, http_ListenAndServe = None\<rparr>) [0..<10] = None
     \<or> db_Exec \<lparr>PORT = [], sql_Open = (\<lambda>i. None),
        db_Ping = (\<lambda>i. if i < 2 then Some DBError else None),
        db_Exec = None, rdb_Ping = Some RedisError, http_ListenAndServe = None\<rparr> \<noteq> None
     \<or> rdb_Ping \<lparr>PORT = [], sql_Open = (\<lambda>i. None),
        db_Ping = (\<lambda>i. if i < 2 then Some DBError else None),
        db_Exec = None, rdb_Ping = Some RedisError, http_ListenAndServe = None\<rparr> \<noteq> None)"
    by simp
  have f1: "List.find (connects \<lparr>PORT = [], sql_Open = (\<lambda>i. None),
        db_Ping = (\<lambda>i. if i < 2 then Some DBError else None),
        db_Exec = None, rdb_Ping = Some RedisError, http_ListenAndServe = None\<rparr>) [0..<10] = Some 2"
    by code_simp
  have u: "[0..<2] = [0, Suc 0]"
    by code_simp
  have f2: "List.find (connects \<lparr>PORT = [], sql_Open = (\<lambda>i. Some DBError), db_Ping = (\<lambda>i. None),
        db_Exec = None, rdb_Ping = None, http_ListenAndServe = None\<rparr>) [0..<10] = None"
    by code_simp
  then have h2: "(List.find (connects \<lparr>PORT = [], sql_Open = (\<lambda>i. Some DBError), db_Ping = (\<lambda>i. None),
        db_Exec = None, rdb_Ping = None, http_ListenAndServe = None\<rparr>) [0..<10] = None
     \<or> db_Exec \<lparr>PORT = [], sql_Open = (\<lambda>i. Some DBError), db_Ping = (\<lambda>i. None),
        db_Exec = None, rdb_Ping = None, http_ListenAndServe = None\<rparr> \<noteq> None
     \<or> rdb_Ping \<lparr>PORT = [], sql_Open = (\<lambda>i. Some DBError), db_Ping = (\<lambda>i. None),
        db_Exec = None, rdb_Ping = None, http_ListenAndServe = None\<rparr> \<noteq> None)"
    by (rule disjI1)
  have f3: "List.find (connects \<lparr>PORT = [], sql_Open = (\<lambda>i. None), db_Ping = (\<lambda>i. None),
        db_Exec = None, rdb_Ping = None, http_ListenAndServe = None\<rparr>) [0..<10] = Some 0"
    by code_simp
  note t1 = startup_sequence
      [where env = "\<lparr>PORT = [], sql_Open = (\<lambda>i. None),
        db_Ping = (\<lambda>i. if i < 2 then Some DBError else None),
        db_Exec = None, rdb_Ping = Some RedisError, http_ListenAndServe = None\<rparr>"
         and s = "\<lparr>events = [], orders_table = None\<rparr>"
         and i = 0 and t = None]
  note t2 = startup_sequence
      [where env = "\<lparr>PORT = [], sql_Open = (\<lambda>i. Some DBError), db_Ping = (\<lambda>i. None),
        db_Exec = None, rdb_Ping = None, http_ListenAndServe = None\<rparr>"
         and s = "\<lparr>events = [], orders_table = None\<rparr>"
         and i = 0 and t = None]
  note t3 = startup_sequence
      [where env = "\<lparr>PORT = [], sql_Open = (\<lambda>i. None), db_Ping = (\<lambda>i. None),
        db_Exec = None, rdb_Ping = None, http_ListenAndServe = None\<rparr>"
         and s = "\<lparr>events = [], orders_table = None\<rparr>"
         and i = 0 and t = None]
  from t1 h1 have x1: "fst (main \<lparr>PORT = [], sql_Open = (\<lambda>i. None),
        db_Ping = (\<lambda>i. if i < 2 then Some DBError else None),
        db_Exec = None, rdb_Ping = Some RedisError, http_ListenAndServe = None\<rparr>
        \<lparr>events = [], orders_table = None\<rparr>) = Exited"
    by blast
  from t2 h2 have x2: "fst (main \<lparr>PORT = [], sql_Open = (\<lambda>i. Some DBError), db_Ping = (\<lambda>i. None),
        db_Exec = None, rdb_Ping = None, http_ListenAndServe = None\<rparr>
        \<lparr>events = [], orders_table = None\<rparr>) = Exited"
    by blast
  from t1 have m1: "main \<lparr>PORT = [], sql_Open = (\<lambda>i. None),
        db_Ping = (\<lambda>i. if i < 2 then Some DBError else None),
        db_Exec = None, rdb_Ping = Some RedisError, http_ListenAndServe = None\<rparr>
        \<lparr>events = [], orders_table = None\<rparr> =
      startup_spec \<lparr>PORT = [], sql_Open = (\<lambda>i. None),
        db_Ping = (\<lambda>i. if i < 2 then Some DBError else None),
        db_Exec = None, rdb_Ping = Some RedisError, http_ListenAndServe = None\<rparr>
        \<lparr>events = [], orders_table = None\<rparr>"
    by (rule conjunct1)
  from t2 have m2: "main \<lparr>PORT = [], sql_Open = (\<lambda>i. Some DBError), db_Ping = (\<lambda>i. None),
        db_Exec = None, rdb_Ping = None, http_ListenAndServe = None\<rparr>
        \<lparr>events = [], orders_table = None\<rparr> =
      startup_spec \<lparr>PORT = [], sql_Open = (\<lambda>i. Some DBError), db_Ping = (\<lambda>i. None),
        db_Exec = None, rdb_Ping = None, http_ListenAndServe = None\<rparr>
        \<lparr>events = [], orders_table = None\<rparr>"
    by (rule conjunct1)
  from t3 have m3: "main \<lparr>PORT = [], sql_Open = (\<lambda>i. None), db_Ping = (\<lambda>i. None),
        db_Exec = None, rdb_Ping = None, http_ListenAndServe = None\<rparr>
        \<lparr>events = [], orders_table = None\<rparr> =
      startup_spec \<lparr>PORT = [], sql_Open = (\<lambda>i. None), db_Ping = (\<lambda>i. None),
        db_Exec = None, rdb_Ping = None, http_ListenAndServe = None\<rparr>
        \<lparr>events = [], orders_table = None\<rparr>"
    by (rule conjunct1)
  have e1: "events (snd (main \<lparr>PORT = [], sql_Open = (\<lambda>i. None),
        db_Ping = (\<lambda>i. if i < 2 then Some DBError else None),
        db_Exec = None, rdb_Ping = Some RedisError, http_ListenAndServe = None\<rparr>
        \<lparr>events = [], orders_table = None\<rparr>)) =
       [SqlOpen, DbPing, LogPrint ''Failed to connect to DB, retrying... (%v)'', Sleep 2,
        SqlOpen, DbPing, LogPrint ''Failed to connect to DB, retrying... (%v)'', Sleep 2,
        SqlOpen, DbPing, LogPrint ''Connected to Database'', ExecCreateTable,
        RedisPing, LogFatalf ''Could not connect to Redis: %v'']"
    unfolding m1 by (simp add: startup_spec_def f1 u failed_attempt_def)
  have e2: "length (filter (\<lambda>ev. ev = SqlOpen) (events (snd (main \<lparr>PORT = [], sql_Open = (\<lambda>i. Some DBError), db_Ping = (\<lambda>i. None),
        db_Exec = None, rdb_Ping = None, http_ListenAndServe = None\<rparr>
        \<lparr>events = [], orders_table = None\<rparr>)))) = 10
      \<and> RedisPing \<notin> set (events (snd (main \<lparr>PORT = [], sql_Open = (\<lambda>i. Some DBError), db_Ping = (\<lambda>i. None),
        db_Exec = None, rdb_Ping = None, http_ListenAndServe = None\<rparr>
        \<lparr>events = [], orders_table = None\<rparr>)))"
    unfolding m2
    by (simp add: startup_spec_def f2 count_SqlOpen_failed_attempts failed_attempt_def)
  have x3: "fst (main \<lparr>PORT = [], sql_Open = (\<lambda>i. None), db_Ping = (\<lambda>i. None),
        db_Exec = None, rdb_Ping = None, http_ListenAndServe = None\<rparr>
        \<lparr>events = [], orders_table = None\<rparr>) = Serving"
    unfolding m3 by (simp add: startup_spec_def f3)
  from t3 have "fst (main \<lparr>PORT = [], sql_Open = (\<lambda>i. None), db_Ping = (\<lambda>i. None),
        db_Exec = None, rdb_Ping = None, http_ListenAndServe = None\<rparr>
        \<lparr>events = [], orders_table = None\<rparr>) = Serving \<longrightarrow>
      orders_table (snd (main \<lparr>PORT = [], sql_Open = (\<lambda>i. None), db_Ping = (\<lambda>i. None),
        db_Exec = None, rdb_Ping = None, http_ListenAndServe = None\<rparr>
        \<lparr>events = [], orders_table = None\<rparr>)) =
        Some (case orders_table \<lparr>events = [], orders_table = None\<rparr> of None \<Rightarrow> [] | Some rows \<Rightarrow> rows)"
    by blast
  with x3 have o3: "orders_table (snd (main \<lparr>PORT = [], sql_Open = (\<lambda>i. None), db_Ping = (\<lambda>i. None),
        db_Exec = None, rdb_Ping = None, http_ListenAndServe = None\<rparr>
        \<lparr>events = [], orders_table = None\<rparr>)) = Some []"
    by simp
  have e3: "events (snd (main \<lparr>PORT = [], sql_Open = (\<lambda>i. None), db_Ping = (\<lambda>i. None),
        db_Exec = None, rdb_Ping = None, http_ListenAndServe = None\<rparr>
        \<lparr>events = [], orders_table = None\<rparr>)) =
       [SqlOpen, DbPing, LogPrint ''Connected to Database'', ExecCreateTable,
        RedisPing, LogPrint ''Connected to Redis'', HandleFunc ''/health'', HandleFunc ''/buy'',
        LogPrint ''Store API (Secure) starting on port 8080...'', ListenAndServe '':8080'']"
    unfolding m3 by (simp add: startup_spec_def f3)
  show ?thesis
    using h1 e1 x1 h2 e2 x2 x3 o3 e3 by blast
qed

end
